theory Spec2Isabelle
  imports Main "HOL-Library.AList" "HOL-Library.Sublist" "HOL-Library.Char_ord" "HOL-Library.List_Lexorder"
begin

section \<open>JavaScript values, exceptions and strings\<close>

text \<open>
  Strings are modelled as lists of 8-bit characters: the code units below 256. Every
  string literal of the sources is ASCII. \<open>js_includes\<close> is
  \<^verbatim>\<open>String.prototype.includes\<close>, the contiguous-substring test, which is also what a
  regular expression made of literal characters tests.
\<close>

definition js_includes :: "string \<Rightarrow> string \<Rightarrow> bool" where
  "js_includes s sub = sublist sub s"

definition apostrophe :: char where
  "apostrophe = CHR 0x27"

definition dquote :: char where
  "dquote = CHR 0x22"

text \<open>The text \<^verbatim>\<open>without 'new'\<close>, which both wrappers look for in an error message.\<close>

definition without_new :: string where
  "without_new = ''without '' @ [apostrophe] @ ''new'' @ [apostrophe]"

text \<open>
  A thrown value is either an \<^verbatim>\<open>Error\<close> object, with its class and its
  \<^verbatim>\<open>message\<close>, or any other value, of which the wrappers and the serializer only ever
  read the string form \<^verbatim>\<open>String(e)\<close>. These are the values the constructors of the
  diagram library and the file system calls throw.
\<close>

datatype error_class = TypeError | RangeError | PlainError

datatype js_thrown = ErrorObject error_class string | ThrownValue string

type_synonym 'a outcome = "js_thrown + 'a"

text \<open>\<^verbatim>\<open>String(err?.message ?? err)\<close>\<close>

fun message_or_string :: "js_thrown \<Rightarrow> string" where
  "message_or_string (ErrorObject c m) = m"
| "message_or_string (ThrownValue s) = s"

text \<open>
  The serializer takes a value typed \<^verbatim>\<open>any\<close>, so what the methods of that value throw is
  any value at all. Of a caught value the serializer evaluates
  \<^verbatim>\<open>e?.message ?? String(e)\<close> inside a template literal. \<open>Printable e\<close> is a
  thrown value on which that evaluation yields text, as it does on a \<open>js_thrown\<close>;
  \<open>Unprintable raised\<close> is one on which the evaluation itself throws \<open>raised\<close>: an
  object with no \<^verbatim>\<open>message\<close> and no conversion to a string, such as
  \<^verbatim>\<open>Object.create(null)\<close>, for which \<^verbatim>\<open>String(e)\<close> throws a \<open>TypeError\<close>; a
  \<^verbatim>\<open>message\<close> that is a symbol; a \<^verbatim>\<open>message\<close> getter that throws.
\<close>

datatype js_caught = Printable js_thrown | Unprintable js_thrown

type_synonym 'a rendering = "js_caught + 'a"

text \<open>
  The values that flow through the diagram DSL: \<^verbatim>\<open>undefined\<close>, strings, the integer
  index of \<^verbatim>\<open>Choice\<close>, and the objects of the diagram library, whose type \<open>'n\<close> is
  left open.
\<close>

datatype 'n js_val = Undefined | Str string | Num int | Obj 'n

text \<open>
  A function value as the wrappers see it: its source text
  (\<^verbatim>\<open>Function.prototype.toString.call(fn)\<close>), the outcome of calling it as
  \<^verbatim>\<open>fn(...args)\<close> and the outcome of \<^verbatim>\<open>new fn(...args)\<close>.
\<close>

record 'n js_function =
  source_text :: string
  call :: "'n js_val list \<Rightarrow> 'n js_val outcome"
  construct :: "'n js_val list \<Rightarrow> 'n js_val outcome"

text \<open>The whitespace class \<^verbatim>\<open>\s\<close> on code units below 256; \<^verbatim>\<open>trim\<close> strips the same set.\<close>

definition is_space :: "char \<Rightarrow> bool" where
  "is_space c = (c \<in> set [CHR 0x09, CHR 0x0A, CHR 0x0B, CHR 0x0C, CHR 0x0D, CHR 0x20, CHR 0xA0])"

section \<open>The render adapter\<close>

subsection \<open>java25Grammar.ts: rr\<close>

text \<open>\<^verbatim>\<open>/^class\s/.test(Function.prototype.toString.call(fn))\<close>\<close>

definition isClass :: "'n js_function \<Rightarrow> bool" where
  "isClass fn = (case drop 5 (source_text fn) of
                   [] \<Rightarrow> False
                 | c # _ \<Rightarrow> take 5 (source_text fn) = ''class'' \<and> is_space c)"

text \<open>
  Which invocations a wrapper performs, in order. The log is kept beside the result, so that
  ``attempts a direct call first'' is a statement about the wrapper.
\<close>

datatype invocation = DirectCall | ConstructorCall

definition new_signature :: "string \<Rightarrow> bool" where
  "new_signature msg =
     (js_includes msg without_new \<or>
      js_includes msg ''Class constructor'' \<or>
      js_includes msg ''Cannot call a class as a function'')"

definition rr_run :: "'n js_function \<Rightarrow> 'n js_val list \<Rightarrow> invocation list \<times> 'n js_val outcome" where
  "rr_run fn args =
     (if isClass fn then ([ConstructorCall], construct fn args)
      else (case call fn args of
              Inr v \<Rightarrow> ([DirectCall], Inr v)
            | Inl err \<Rightarrow>
                (let msg = message_or_string err in
                 if new_signature msg
                 then ([DirectCall, ConstructorCall], construct fn args)
                 else ([DirectCall], Inl err))))"

definition rr :: "'n js_function \<Rightarrow> 'n js_val list \<Rightarrow> 'n js_val outcome" where
  "rr fn args = snd (rr_run fn args)"

subsection \<open>javaGrammar.ts: callOrNew\<close>

text \<open>\<^verbatim>\<open>e instanceof TypeError && /without 'new'/.test(e.message)\<close>\<close>

fun without_new_TypeError :: "js_thrown \<Rightarrow> bool" where
  "without_new_TypeError (ErrorObject c m) =
     (c = TypeError \<and> js_includes m without_new)"
| "without_new_TypeError (ThrownValue s) = False"

definition callOrNew_run :: "'n js_function \<Rightarrow> 'n js_val list \<Rightarrow> invocation list \<times> 'n js_val outcome" where
  "callOrNew_run Ctor args =
     (case call Ctor args of
        Inr v \<Rightarrow> ([DirectCall], Inr v)
      | Inl e \<Rightarrow>
          if without_new_TypeError e
          then ([DirectCall, ConstructorCall], construct Ctor args)
          else ([DirectCall], Inl e))"

definition callOrNew :: "'n js_function \<Rightarrow> 'n js_val list \<Rightarrow> 'n js_val outcome" where
  "callOrNew Ctor args = snd (callOrNew_run Ctor args)"


subsection \<open>The diagram library as the grammar files see it\<close>

text \<open>
  The package \<^verbatim>\<open>@prantlf/railroad-diagrams\<close> is not part of the repository. It is a
  parameter of the model: its ten exported constructors, and what an object built by it exposes
  to the serializer (whether \<^verbatim>\<open>toSVG\<close> and \<^verbatim>\<open>toString\<close> are functions, and the
  outcome of calling them).
\<close>

datatype svg_result =
    SvgString string
  | SvgElement "string option" "string rendering"
  | SvgOther

record 'n railroad =
  RR_Diagram :: "'n js_function"
  RR_Sequence :: "'n js_function"
  RR_Choice :: "'n js_function"
  RR_Optional :: "'n js_function"
  RR_OneOrMore :: "'n js_function"
  RR_ZeroOrMore :: "'n js_function"
  RR_Terminal :: "'n js_function"
  RR_NonTerminal :: "'n js_function"
  RR_Stack :: "'n js_function"
  RR_Comment :: "'n js_function"
  toSVG_of :: "'n \<Rightarrow> svg_result rendering option"
  toString_of :: "'n \<Rightarrow> string rendering option"

text \<open>
  JavaScript evaluates the arguments of a call from left to right before the call; the first
  argument that throws aborts the call. An argument is therefore the outcome of its expression.
\<close>

fun evaluated :: "'a outcome list \<Rightarrow> 'a list outcome" where
  "evaluated [] = Inr []"
| "evaluated (Inl e # rest) = Inl e"
| "evaluated (Inr v # rest) = (case evaluated rest of Inl e \<Rightarrow> Inl e | Inr vs \<Rightarrow> Inr (v # vs))"

definition invoke ::
  "('n js_val list \<Rightarrow> 'n js_val outcome) \<Rightarrow> 'n js_val outcome list \<Rightarrow> 'n js_val outcome" where
  "invoke f items = (case evaluated items of Inl e \<Rightarrow> Inl e | Inr args \<Rightarrow> f args)"

abbreviation num :: "int \<Rightarrow> 'n js_val outcome" where
  "num i \<equiv> Inr (Num i)"

abbreviation str :: "string \<Rightarrow> 'n js_val outcome" where
  "str s \<equiv> Inr (Str s)"

subsection \<open>java25Grammar.ts: the shorthand helpers\<close>

text \<open>
  \<^verbatim>\<open>Cmt\<close>, \<^verbatim>\<open>T\<close> and \<^verbatim>\<open>NT\<close> also accept rest arguments, which no call in the file
  passes; they are left out.
\<close>

definition D :: "'n railroad \<Rightarrow> 'n js_val outcome list \<Rightarrow> 'n js_val outcome" where
  "D lib items = invoke (rr (RR_Diagram lib)) items"

definition Seq :: "'n railroad \<Rightarrow> 'n js_val outcome list \<Rightarrow> 'n js_val outcome" where
  "Seq lib items = invoke (rr (RR_Sequence lib)) items"

definition Ch :: "'n railroad \<Rightarrow> 'n js_val outcome list \<Rightarrow> 'n js_val outcome" where
  "Ch lib items = invoke (rr (RR_Choice lib)) items"

definition Opt :: "'n railroad \<Rightarrow> 'n js_val outcome list \<Rightarrow> 'n js_val outcome" where
  "Opt lib items = invoke (rr (RR_Optional lib)) items"

definition OOM :: "'n railroad \<Rightarrow> 'n js_val outcome list \<Rightarrow> 'n js_val outcome" where
  "OOM lib items = invoke (rr (RR_OneOrMore lib)) items"

definition ZOM :: "'n railroad \<Rightarrow> 'n js_val outcome list \<Rightarrow> 'n js_val outcome" where
  "ZOM lib items = invoke (rr (RR_ZeroOrMore lib)) items"

definition Stk :: "'n railroad \<Rightarrow> 'n js_val outcome list \<Rightarrow> 'n js_val outcome" where
  "Stk lib items = invoke (rr (RR_Stack lib)) items"

definition Cmt :: "'n railroad \<Rightarrow> string \<Rightarrow> 'n js_val outcome" where
  "Cmt lib text = invoke (rr (RR_Comment lib)) [str text]"

definition T :: "'n railroad \<Rightarrow> string \<Rightarrow> 'n js_val outcome" where
  "T lib text = invoke (rr (RR_Terminal lib)) [str text]"

definition NT :: "'n railroad \<Rightarrow> string \<Rightarrow> 'n js_val outcome" where
  "NT lib text = invoke (rr (RR_NonTerminal lib)) [str text]"

subsection \<open>javaGrammar.ts: the wrapped primitives and the precedence-chain helper\<close>

definition Diagram :: "'n railroad \<Rightarrow> 'n js_val outcome list \<Rightarrow> 'n js_val outcome" where
  "Diagram lib a = invoke (callOrNew (RR_Diagram lib)) a"

definition Sequence :: "'n railroad \<Rightarrow> 'n js_val outcome list \<Rightarrow> 'n js_val outcome" where
  "Sequence lib a = invoke (callOrNew (RR_Sequence lib)) a"

definition Choice :: "'n railroad \<Rightarrow> 'n js_val outcome list \<Rightarrow> 'n js_val outcome" where
  "Choice lib a = invoke (callOrNew (RR_Choice lib)) a"

definition Optional :: "'n railroad \<Rightarrow> 'n js_val outcome list \<Rightarrow> 'n js_val outcome" where
  "Optional lib a = invoke (callOrNew (RR_Optional lib)) a"

definition OneOrMore :: "'n railroad \<Rightarrow> 'n js_val outcome list \<Rightarrow> 'n js_val outcome" where
  "OneOrMore lib a = invoke (callOrNew (RR_OneOrMore lib)) a"

definition ZeroOrMore :: "'n railroad \<Rightarrow> 'n js_val outcome list \<Rightarrow> 'n js_val outcome" where
  "ZeroOrMore lib a = invoke (callOrNew (RR_ZeroOrMore lib)) a"

definition Terminal :: "'n railroad \<Rightarrow> 'n js_val outcome list \<Rightarrow> 'n js_val outcome" where
  "Terminal lib a = invoke (callOrNew (RR_Terminal lib)) a"

definition NonTerminal :: "'n railroad \<Rightarrow> 'n js_val outcome list \<Rightarrow> 'n js_val outcome" where
  "NonTerminal lib a = invoke (callOrNew (RR_NonTerminal lib)) a"

definition Stack :: "'n railroad \<Rightarrow> 'n js_val outcome list \<Rightarrow> 'n js_val outcome" where
  "Stack lib a = invoke (callOrNew (RR_Stack lib)) a"

definition Comment :: "'n railroad \<Rightarrow> 'n js_val outcome list \<Rightarrow> 'n js_val outcome" where
  "Comment lib a = invoke (callOrNew (RR_Comment lib)) a"

text \<open>\<^verbatim>\<open>const T = (s: string) => Terminal(s); const NT = (s: string) => NonTerminal(s);\<close>\<close>

definition T_legacy :: "'n railroad \<Rightarrow> string \<Rightarrow> 'n js_val outcome" where
  "T_legacy lib s = Terminal lib [str s]"

definition NT_legacy :: "'n railroad \<Rightarrow> string \<Rightarrow> 'n js_val outcome" where
  "NT_legacy lib s = NonTerminal lib [str s]"

text \<open>
  \<^verbatim>\<open>Sequence(NT(base), ZeroOrMore(Sequence(Choice(0, ...ops.map(T)), NT(base))))\<close>.
  \<^verbatim>\<open>Array.prototype.map\<close> passes the index and the array as well, which the one-parameter
  \<^verbatim>\<open>T\<close> of this file ignores.
\<close>

definition chain :: "'n railroad \<Rightarrow> string \<Rightarrow> string list \<Rightarrow> 'n js_val outcome" where
  "chain lib base ops =
     Sequence lib
       [NT_legacy lib base,
        ZeroOrMore lib [Sequence lib [Choice lib (num 0 # map (T_legacy lib) ops), NT_legacy lib base]]]"


section \<open>shared/railroad/diagramToSvg.ts\<close>

text \<open>
  The argument is typed \<^verbatim>\<open>any\<close>. The function observes of it only whether it is falsy
  (\<^verbatim>\<open>undefined\<close>, \<^verbatim>\<open>null\<close>, the empty string, zero), whether its \<^verbatim>\<open>toSVG\<close>
  property is a function and what calling it yields, and the same for \<^verbatim>\<open>toString\<close>
  (there the outcome of \<^verbatim>\<open>String(diagram.toString())\<close>). An \<open>SvgElement\<close> is a result
  with a \<^verbatim>\<open>nodeType\<close>: its \<^verbatim>\<open>outerHTML\<close>, if not nullish, and the outcome of
  \<^verbatim>\<open>new XMLSerializer().serializeToString(el)\<close>.
\<close>

datatype js_any = Falsy | Truthy "svg_result rendering option" "string rendering option"

text \<open>The body of the \<^verbatim>\<open>try\<close> block.\<close>

definition try_block :: "svg_result rendering option \<Rightarrow> string rendering option \<Rightarrow> string rendering" where
  "try_block toSVG toString =
     (case toSVG of
        Some called \<Rightarrow>
          (case called of
             Inl e \<Rightarrow> Inl e
           | Inr (SvgString svg) \<Rightarrow> Inr svg
           | Inr (SvgElement outerHTML serialized) \<Rightarrow>
               (case outerHTML of Some html \<Rightarrow> Inr html | None \<Rightarrow> serialized)
           | Inr SvgOther \<Rightarrow> Inr ''<!-- toSVG() returned unexpected value -->'')
      | None \<Rightarrow>
          (case toString of
             Some called \<Rightarrow> called
           | None \<Rightarrow> Inr ''<!-- Diagram does not support toSVG/toString -->''))"

text \<open>
  The expression \<^verbatim>\<open>e?.message ?? String(e)\<close> of the \<^verbatim>\<open>catch\<close> block, as the
  template literal embeds it: the \<^verbatim>\<open>message\<close> of an \<open>Error\<close> object (also when it is the
  empty string, which is not nullish), the string form of any other printable value. The
  expression stands outside every \<^verbatim>\<open>try\<close>, so what it throws leaves the function.
\<close>

fun caught_text :: "js_caught \<Rightarrow> string outcome" where
  "caught_text (Printable (ErrorObject c m)) = Inr m"
| "caught_text (Printable (ThrownValue s)) = Inr s"
| "caught_text (Unprintable raised) = Inl raised"

definition diagramToSvgString :: "js_any \<Rightarrow> string outcome" where
  "diagramToSvgString diagram =
     (case diagram of
        Falsy \<Rightarrow> Inr ''<!-- empty diagram -->''
      | Truthy toSVG toString \<Rightarrow>
          (case try_block toSVG toString of
             Inr s \<Rightarrow> Inr s
           | Inl e \<Rightarrow>
               (case caught_text e of
                  Inl raised \<Rightarrow> Inl raised
                | Inr text \<Rightarrow> Inr (''<!-- Render error: '' @ text @ '' -->''))))"






section \<open>java25Grammar.ts: the rule registry\<close>

text \<open>
  A \<^verbatim>\<open>Map\<close> keeps its entries in insertion order; \<^verbatim>\<open>set\<close> on a key that is present
  replaces the value in place, on a new key it appends.
\<close>

type_synonym ('k, 'v) js_map = "('k \<times> 'v) list"

definition Map_set :: "'k \<Rightarrow> 'v \<Rightarrow> ('k, 'v) js_map \<Rightarrow> ('k, 'v) js_map" where
  "Map_set k v m = AList.update k v m"

definition Map_get :: "('k, 'v) js_map \<Rightarrow> 'k \<Rightarrow> 'v option" where
  "Map_get m k = map_of m k"

definition Map_keys :: "('k, 'v) js_map \<Rightarrow> 'k list" where
  "Map_keys m = map fst m"

text \<open>
  The \<^verbatim>\<open>rules.set(name, () => ...)\<close> statements of the file, in order, one list per
  section of the file.
\<close>

text \<open>\<^verbatim>\<open>// JLS 3 Lexical Structure\<close>\<close>

definition rules_lexical :: "'n railroad \<Rightarrow> (string \<times> (unit \<Rightarrow> 'n js_val outcome)) list" where
  "rules_lexical lib =
    [
     (''Identifier'', \<lambda>_. D lib [Seq lib [NT lib ''IdentifierChars'', Cmt lib ''but not ReservedKeyword, BooleanLiteral, or NullLiteral'']]),
     (''IdentifierChars'', \<lambda>_. D lib [Seq lib [NT lib ''JavaLetter'', ZOM lib [NT lib ''JavaLetterOrDigit'']]]),
     (''JavaLetter'', \<lambda>_. D lib [Cmt lib ''any Unicode character that is a Java letter'']),
     (''JavaLetterOrDigit'', \<lambda>_. D lib [Cmt lib ''any Unicode character that is a Java letter-or-digit'']),
     (''TypeIdentifier'', \<lambda>_. D lib [Seq lib [NT lib ''Identifier'', Cmt lib ''but not permits, record, sealed, var, or yield'']]),
     (''UnqualifiedMethodIdentifier'', \<lambda>_. D lib [Seq lib [NT lib ''Identifier'', Cmt lib ''but not yield'']]),
     (''Literal'', \<lambda>_. D lib [Ch lib [num 0, NT lib ''IntegerLiteral'', NT lib ''FloatingPointLiteral'', NT lib ''BooleanLiteral'', NT lib ''CharacterLiteral'', NT lib ''StringLiteral'', NT lib ''TextBlock'', NT lib ''NullLiteral'']])
    ]"

text \<open>\<^verbatim>\<open>// JLS 4 Types, Values, and Variables\<close>\<close>

definition rules_types :: "'n railroad \<Rightarrow> (string \<times> (unit \<Rightarrow> 'n js_val outcome)) list" where
  "rules_types lib =
    [
     (''Type'', \<lambda>_. D lib [Ch lib [num 0, NT lib ''PrimitiveType'', NT lib ''ReferenceType'']]),
     (''PrimitiveType'', \<lambda>_. D lib [Ch lib [num 0, Seq lib [ZOM lib [NT lib ''Annotation''], NT lib ''NumericType''], Seq lib [ZOM lib [NT lib ''Annotation''], T lib ''boolean'']]]),
     (''NumericType'', \<lambda>_. D lib [Ch lib [num 0, NT lib ''IntegralType'', NT lib ''FloatingPointType'']]),
     (''IntegralType'', \<lambda>_. D lib [Ch lib [num 0, T lib ''byte'', T lib ''short'', T lib ''int'', T lib ''long'', T lib ''char'']]),
     (''FloatingPointType'', \<lambda>_. D lib [Ch lib [num 0, T lib ''float'', T lib ''double'']]),
     (''ReferenceType'', \<lambda>_. D lib [Ch lib [num 0, NT lib ''ClassOrInterfaceType'', NT lib ''TypeVariable'', NT lib ''ArrayType'']]),
     (''ClassOrInterfaceType'', \<lambda>_. D lib [Ch lib [num 0, NT lib ''ClassType'', NT lib ''InterfaceType'']]),
     (''ClassType'', \<lambda>_. D lib [Ch lib [num 0, Seq lib [ZOM lib [NT lib ''Annotation''], NT lib ''TypeIdentifier'', Opt lib [NT lib ''TypeArguments'']], Seq lib [NT lib ''PackageName'', T lib ''.'', ZOM lib [NT lib ''Annotation''], NT lib ''TypeIdentifier'', Opt lib [NT lib ''TypeArguments'']], Seq lib [NT lib ''ClassOrInterfaceType'', T lib ''.'', ZOM lib [NT lib ''Annotation''], NT lib ''TypeIdentifier'', Opt lib [NT lib ''TypeArguments'']]]]),
     (''InterfaceType'', \<lambda>_. D lib [NT lib ''ClassType'']),
     (''TypeVariable'', \<lambda>_. D lib [Seq lib [ZOM lib [NT lib ''Annotation''], NT lib ''TypeIdentifier'']]),
     (''ArrayType'', \<lambda>_. D lib [Ch lib [num 0, Seq lib [NT lib ''PrimitiveType'', NT lib ''Dims''], Seq lib [NT lib ''ClassOrInterfaceType'', NT lib ''Dims''], Seq lib [NT lib ''TypeVariable'', NT lib ''Dims'']]]),
     (''Dims'', \<lambda>_. D lib [OOM lib [Seq lib [ZOM lib [NT lib ''Annotation''], T lib ''['', T lib '']'']]]),
     (''TypeParameter'', \<lambda>_. D lib [Seq lib [ZOM lib [NT lib ''TypeParameterModifier''], NT lib ''TypeIdentifier'', Opt lib [NT lib ''TypeBound'']]]),
     (''TypeParameterModifier'', \<lambda>_. D lib [NT lib ''Annotation'']),
     (''TypeBound'', \<lambda>_. D lib [Ch lib [num 0, Seq lib [T lib ''extends'', NT lib ''TypeVariable''], Seq lib [T lib ''extends'', NT lib ''ClassOrInterfaceType'', ZOM lib [NT lib ''AdditionalBound'']]]]),
     (''AdditionalBound'', \<lambda>_. D lib [Seq lib [T lib ''&'', NT lib ''InterfaceType'']]),
     (''TypeArguments'', \<lambda>_. D lib [Seq lib [T lib ''<'', NT lib ''TypeArgumentList'', T lib ''>'']]),
     (''TypeArgumentList'', \<lambda>_. D lib [Seq lib [NT lib ''TypeArgument'', ZOM lib [Seq lib [T lib '','', NT lib ''TypeArgument'']]]]),
     (''TypeArgument'', \<lambda>_. D lib [Ch lib [num 0, NT lib ''ReferenceType'', NT lib ''Wildcard'']]),
     (''Wildcard'', \<lambda>_. D lib [Seq lib [ZOM lib [NT lib ''Annotation''], T lib ''?'', Opt lib [NT lib ''WildcardBounds'']]]),
     (''WildcardBounds'', \<lambda>_. D lib [Ch lib [num 0, Seq lib [T lib ''extends'', NT lib ''ReferenceType''], Seq lib [T lib ''super'', NT lib ''ReferenceType'']]])
    ]"

text \<open>\<^verbatim>\<open>// JLS 6 Names\<close>\<close>

definition rules_names :: "'n railroad \<Rightarrow> (string \<times> (unit \<Rightarrow> 'n js_val outcome)) list" where
  "rules_names lib =
    [
     (''ModuleName'', \<lambda>_. D lib [Seq lib [NT lib ''Identifier'', ZOM lib [Seq lib [T lib ''.'', NT lib ''Identifier'']]]]),
     (''PackageName'', \<lambda>_. D lib [Seq lib [NT lib ''Identifier'', ZOM lib [Seq lib [T lib ''.'', NT lib ''Identifier'']]]]),
     (''TypeName'', \<lambda>_. D lib [Ch lib [num 0, NT lib ''TypeIdentifier'', Seq lib [NT lib ''PackageOrTypeName'', T lib ''.'', NT lib ''TypeIdentifier'']]]),
     (''ExpressionName'', \<lambda>_. D lib [Ch lib [num 0, NT lib ''Identifier'', Seq lib [NT lib ''AmbiguousName'', T lib ''.'', NT lib ''Identifier'']]]),
     (''MethodName'', \<lambda>_. D lib [NT lib ''UnqualifiedMethodIdentifier'']),
     (''PackageOrTypeName'', \<lambda>_. D lib [Seq lib [NT lib ''Identifier'', ZOM lib [Seq lib [T lib ''.'', NT lib ''Identifier'']]]]),
     (''AmbiguousName'', \<lambda>_. D lib [Seq lib [NT lib ''Identifier'', ZOM lib [Seq lib [T lib ''.'', NT lib ''Identifier'']]]])
    ]"

text \<open>\<^verbatim>\<open>// JLS 7 Packages and Modules\<close>\<close>

definition rules_packages :: "'n railroad \<Rightarrow> (string \<times> (unit \<Rightarrow> 'n js_val outcome)) list" where
  "rules_packages lib =
    [
     (''CompilationUnit'', \<lambda>_. D lib [Ch lib [num 0, NT lib ''OrdinaryCompilationUnit'', NT lib ''CompactCompilationUnit'', NT lib ''ModularCompilationUnit'']]),
     (''OrdinaryCompilationUnit'', \<lambda>_. D lib [Seq lib [Opt lib [NT lib ''PackageDeclaration''], ZOM lib [NT lib ''ImportDeclaration''], ZOM lib [NT lib ''TopLevelClassOrInterfaceDeclaration'']]]),
     (''ModularCompilationUnit'', \<lambda>_. D lib [Seq lib [ZOM lib [NT lib ''ImportDeclaration''], NT lib ''ModuleDeclaration'']]),
     (''PackageDeclaration'', \<lambda>_. D lib [Seq lib [ZOM lib [NT lib ''PackageModifier''], T lib ''package'', NT lib ''Identifier'', ZOM lib [Seq lib [T lib ''.'', NT lib ''Identifier'']], T lib '';'']]),
     (''PackageModifier'', \<lambda>_. D lib [NT lib ''Annotation'']),
     (''ImportDeclaration'', \<lambda>_. D lib [Ch lib [num 0, NT lib ''SingleTypeImportDeclaration'', NT lib ''TypeImportOnDemandDeclaration'', NT lib ''SingleStaticImportDeclaration'', NT lib ''StaticImportOnDemandDeclaration'', NT lib ''SingleModuleImportDeclaration'']]),
     (''SingleTypeImportDeclaration'', \<lambda>_. D lib [Seq lib [T lib ''import'', NT lib ''TypeName'', T lib '';'']]),
     (''TypeImportOnDemandDeclaration'', \<lambda>_. D lib [Seq lib [T lib ''import'', NT lib ''PackageOrTypeName'', T lib ''.'', T lib ''*'', T lib '';'']]),
     (''SingleStaticImportDeclaration'', \<lambda>_. D lib [Seq lib [T lib ''import'', T lib ''static'', NT lib ''TypeName'', T lib ''.'', NT lib ''Identifier'', T lib '';'']]),
     (''StaticImportOnDemandDeclaration'', \<lambda>_. D lib [Seq lib [T lib ''import'', T lib ''static'', NT lib ''TypeName'', T lib ''.'', T lib ''*'', T lib '';'']]),
     (''SingleModuleImportDeclaration'', \<lambda>_. D lib [Seq lib [T lib ''import'', T lib ''module'', NT lib ''ModuleName'', T lib '';'']]),
     (''TopLevelClassOrInterfaceDeclaration'', \<lambda>_. D lib [Ch lib [num 0, NT lib ''ClassDeclaration'', NT lib ''InterfaceDeclaration'', T lib '';'']]),
     (''ModuleDeclaration'', \<lambda>_. D lib [Seq lib [ZOM lib [NT lib ''Annotation''], Opt lib [T lib ''open''], T lib ''module'', NT lib ''Identifier'', ZOM lib [Seq lib [T lib ''.'', NT lib ''Identifier'']], T lib ''{'', ZOM lib [NT lib ''ModuleDirective''], T lib ''}'']]),
     (''ModuleDirective'', \<lambda>_. D lib [Ch lib [num 0, Seq lib [T lib ''requires'', ZOM lib [NT lib ''RequiresModifier''], NT lib ''ModuleName'', T lib '';''], Seq lib [T lib ''exports'', NT lib ''PackageName'', Opt lib [Seq lib [T lib ''to'', NT lib ''ModuleName'', ZOM lib [Seq lib [T lib '','', NT lib ''ModuleName'']]]], T lib '';''], Seq lib [T lib ''opens'', NT lib ''PackageName'', Opt lib [Seq lib [T lib ''to'', NT lib ''ModuleName'', ZOM lib [Seq lib [T lib '','', NT lib ''ModuleName'']]]], T lib '';''], Seq lib [T lib ''uses'', NT lib ''TypeName'', T lib '';''], Seq lib [T lib ''provides'', NT lib ''TypeName'', T lib ''with'', NT lib ''TypeName'', ZOM lib [Seq lib [T lib '','', NT lib ''TypeName'']], T lib '';'']]]),
     (''RequiresModifier'', \<lambda>_. D lib [Ch lib [num 0, T lib ''transitive'', T lib ''static'']])
    ]"

text \<open>\<^verbatim>\<open>// JLS 8 Classes\<close>\<close>

definition rules_classes :: "'n railroad \<Rightarrow> (string \<times> (unit \<Rightarrow> 'n js_val outcome)) list" where
  "rules_classes lib =
    [
     (''ClassDeclaration'', \<lambda>_. D lib [Ch lib [num 0, NT lib ''NormalClassDeclaration'', NT lib ''EnumDeclaration'', NT lib ''RecordDeclaration'']]),
     (''NormalClassDeclaration'', \<lambda>_. D lib [Seq lib [ZOM lib [NT lib ''ClassModifier''], T lib ''class'', NT lib ''TypeIdentifier'', Opt lib [NT lib ''TypeParameters''], Opt lib [NT lib ''ClassExtends''], Opt lib [NT lib ''ClassImplements''], Opt lib [NT lib ''ClassPermits''], NT lib ''ClassBody'']]),
     (''ClassModifier'', \<lambda>_. D lib [Ch lib [num 0, NT lib ''Annotation'', T lib ''public'', T lib ''protected'', T lib ''private'', T lib ''abstract'', T lib ''static'', T lib ''final'', T lib ''sealed'', T lib ''non-sealed'', T lib ''strictfp'']]),
     (''TypeParameters'', \<lambda>_. D lib [Seq lib [T lib ''<'', NT lib ''TypeParameterList'', T lib ''>'']]),
     (''TypeParameterList'', \<lambda>_. D lib [Seq lib [NT lib ''TypeParameter'', ZOM lib [Seq lib [T lib '','', NT lib ''TypeParameter'']]]]),
     (''ClassExtends'', \<lambda>_. D lib [Seq lib [T lib ''extends'', NT lib ''ClassType'']]),
     (''ClassImplements'', \<lambda>_. D lib [Seq lib [T lib ''implements'', NT lib ''InterfaceTypeList'']]),
     (''InterfaceTypeList'', \<lambda>_. D lib [Seq lib [NT lib ''InterfaceType'', ZOM lib [Seq lib [T lib '','', NT lib ''InterfaceType'']]]]),
     (''ClassPermits'', \<lambda>_. D lib [Seq lib [T lib ''permits'', NT lib ''TypeName'', ZOM lib [Seq lib [T lib '','', NT lib ''TypeName'']]]]),
     (''ClassBody'', \<lambda>_. D lib [Seq lib [T lib ''{'', ZOM lib [NT lib ''ClassBodyDeclaration''], T lib ''}'']]),
     (''ClassBodyDeclaration'', \<lambda>_. D lib [Ch lib [num 0, NT lib ''ClassMemberDeclaration'', NT lib ''InstanceInitializer'', NT lib ''StaticInitializer'', NT lib ''ConstructorDeclaration'']]),
     (''ClassMemberDeclaration'', \<lambda>_. D lib [Ch lib [num 0, NT lib ''FieldDeclaration'', NT lib ''MethodDeclaration'', NT lib ''ClassDeclaration'', NT lib ''InterfaceDeclaration'', T lib '';'']]),
     (''FieldDeclaration'', \<lambda>_. D lib [Seq lib [ZOM lib [NT lib ''FieldModifier''], NT lib ''UnannType'', NT lib ''VariableDeclaratorList'', T lib '';'']]),
     (''FieldModifier'', \<lambda>_. D lib [Ch lib [num 0, NT lib ''Annotation'', T lib ''public'', T lib ''protected'', T lib ''private'', T lib ''static'', T lib ''final'', T lib ''transient'', T lib ''volatile'']]),
     (''VariableDeclaratorList'', \<lambda>_. D lib [Seq lib [NT lib ''VariableDeclarator'', ZOM lib [Seq lib [T lib '','', NT lib ''VariableDeclarator'']]]]),
     (''VariableDeclarator'', \<lambda>_. D lib [Seq lib [NT lib ''VariableDeclaratorId'', Opt lib [Seq lib [T lib ''='', NT lib ''VariableInitializer'']]]]),
     (''VariableDeclaratorId'', \<lambda>_. D lib [Ch lib [num 0, Seq lib [NT lib ''Identifier'', Opt lib [NT lib ''Dims'']], T lib ''_'']]),
     (''VariableInitializer'', \<lambda>_. D lib [Ch lib [num 0, NT lib ''Expression'', NT lib ''ArrayInitializer'']]),
     (''UnannType'', \<lambda>_. D lib [Ch lib [num 0, NT lib ''UnannPrimitiveType'', NT lib ''UnannReferenceType'']]),
     (''UnannPrimitiveType'', \<lambda>_. D lib [Ch lib [num 0, NT lib ''NumericType'', T lib ''boolean'']]),
     (''UnannReferenceType'', \<lambda>_. D lib [Ch lib [num 0, NT lib ''UnannClassOrInterfaceType'', NT lib ''UnannTypeVariable'', NT lib ''UnannArrayType'']]),
     (''UnannClassOrInterfaceType'', \<lambda>_. D lib [Ch lib [num 0, NT lib ''UnannClassType'', NT lib ''UnannInterfaceType'']]),
     (''UnannClassType'', \<lambda>_. D lib [Ch lib [num 0, Seq lib [NT lib ''TypeIdentifier'', Opt lib [NT lib ''TypeArguments'']], Seq lib [NT lib ''PackageName'', T lib ''.'', ZOM lib [NT lib ''Annotation''], NT lib ''TypeIdentifier'', Opt lib [NT lib ''TypeArguments'']], Seq lib [NT lib ''UnannClassOrInterfaceType'', T lib ''.'', ZOM lib [NT lib ''Annotation''], NT lib ''TypeIdentifier'', Opt lib [NT lib ''TypeArguments'']]]]),
     (''UnannInterfaceType'', \<lambda>_. D lib [NT lib ''UnannClassType'']),
     (''UnannTypeVariable'', \<lambda>_. D lib [NT lib ''TypeIdentifier'']),
     (''UnannArrayType'', \<lambda>_. D lib [Ch lib [num 0, Seq lib [NT lib ''UnannPrimitiveType'', NT lib ''Dims''], Seq lib [NT lib ''UnannClassOrInterfaceType'', NT lib ''Dims''], Seq lib [NT lib ''UnannTypeVariable'', NT lib ''Dims'']]]),
     (''MethodDeclaration'', \<lambda>_. D lib [Seq lib [ZOM lib [NT lib ''MethodModifier''], NT lib ''MethodHeader'', NT lib ''MethodBody'']]),
     (''MethodModifier'', \<lambda>_. D lib [Ch lib [num 0, NT lib ''Annotation'', T lib ''public'', T lib ''protected'', T lib ''private'', T lib ''abstract'', T lib ''static'', T lib ''final'', T lib ''synchronized'', T lib ''native'', T lib ''strictfp'']]),
     (''MethodHeader'', \<lambda>_. D lib [Ch lib [num 0, Seq lib [NT lib ''Result'', NT lib ''MethodDeclarator'', Opt lib [NT lib ''Throws'']], Seq lib [NT lib ''TypeParameters'', ZOM lib [NT lib ''Annotation''], NT lib ''Result'', NT lib ''MethodDeclarator'', Opt lib [NT lib ''Throws'']]]]),
     (''Result'', \<lambda>_. D lib [Ch lib [num 0, NT lib ''UnannType'', T lib ''void'']]),
     (''MethodDeclarator'', \<lambda>_. D lib [Seq lib [NT lib ''Identifier'', T lib ''('', Opt lib [Seq lib [NT lib ''ReceiverParameter'', T lib '','']], Opt lib [NT lib ''FormalParameterList''], T lib '')'', Opt lib [NT lib ''Dims'']]]),
     (''ReceiverParameter'', \<lambda>_. D lib [Seq lib [ZOM lib [NT lib ''Annotation''], NT lib ''UnannType'', Opt lib [Seq lib [NT lib ''Identifier'', T lib ''.'']], T lib ''this'']]),
     (''FormalParameterList'', \<lambda>_. D lib [Seq lib [NT lib ''FormalParameter'', ZOM lib [Seq lib [T lib '','', NT lib ''FormalParameter'']]]]),
     (''FormalParameter'', \<lambda>_. D lib [Ch lib [num 0, Seq lib [ZOM lib [NT lib ''VariableModifier''], NT lib ''UnannType'', NT lib ''VariableDeclaratorId''], NT lib ''VariableArityParameter'']]),
     (''VariableArityParameter'', \<lambda>_. D lib [Seq lib [ZOM lib [NT lib ''VariableModifier''], NT lib ''UnannType'', ZOM lib [NT lib ''Annotation''], T lib ''...'', NT lib ''Identifier'']]),
     (''VariableModifier'', \<lambda>_. D lib [Ch lib [num 0, NT lib ''Annotation'', T lib ''final'']]),
     (''Throws'', \<lambda>_. D lib [Seq lib [T lib ''throws'', NT lib ''ExceptionTypeList'']]),
     (''ExceptionTypeList'', \<lambda>_. D lib [Seq lib [NT lib ''ExceptionType'', ZOM lib [Seq lib [T lib '','', NT lib ''ExceptionType'']]]]),
     (''ExceptionType'', \<lambda>_. D lib [Ch lib [num 0, NT lib ''ClassType'', NT lib ''TypeVariable'']]),
     (''MethodBody'', \<lambda>_. D lib [Ch lib [num 0, NT lib ''Block'', T lib '';'']]),
     (''InstanceInitializer'', \<lambda>_. D lib [NT lib ''Block'']),
     (''StaticInitializer'', \<lambda>_. D lib [Seq lib [T lib ''static'', NT lib ''Block'']]),
     (''ConstructorDeclaration'', \<lambda>_. D lib [Seq lib [ZOM lib [NT lib ''ConstructorModifier''], NT lib ''ConstructorDeclarator'', Opt lib [NT lib ''Throws''], NT lib ''ConstructorBody'']]),
     (''ConstructorModifier'', \<lambda>_. D lib [Ch lib [num 0, NT lib ''Annotation'', T lib ''public'', T lib ''protected'', T lib ''private'']]),
     (''ConstructorDeclarator'', \<lambda>_. D lib [Seq lib [Opt lib [NT lib ''TypeParameters''], NT lib ''SimpleTypeName'', T lib ''('', Opt lib [Seq lib [NT lib ''ReceiverParameter'', T lib '','']], Opt lib [NT lib ''FormalParameterList''], T lib '')'']]),
     (''SimpleTypeName'', \<lambda>_. D lib [NT lib ''TypeIdentifier'']),
     (''ConstructorBody'', \<lambda>_. D lib [Ch lib [num 0, Seq lib [T lib ''{'', Opt lib [NT lib ''BlockStatements''], NT lib ''ConstructorInvocation'', Opt lib [NT lib ''BlockStatements''], T lib ''}''], Seq lib [T lib ''{'', Opt lib [NT lib ''BlockStatements''], T lib ''}'']]]),
     (''ConstructorInvocation'', \<lambda>_. D lib [Ch lib [num 0, Seq lib [Opt lib [NT lib ''TypeArguments''], T lib ''this'', T lib ''('', Opt lib [NT lib ''ArgumentList''], T lib '')'', T lib '';''], Seq lib [Opt lib [NT lib ''TypeArguments''], T lib ''super'', T lib ''('', Opt lib [NT lib ''ArgumentList''], T lib '')'', T lib '';''], Seq lib [NT lib ''ExpressionName'', T lib ''.'', Opt lib [NT lib ''TypeArguments''], T lib ''super'', T lib ''('', Opt lib [NT lib ''ArgumentList''], T lib '')'', T lib '';''], Seq lib [NT lib ''Primary'', T lib ''.'', Opt lib [NT lib ''TypeArguments''], T lib ''super'', T lib ''('', Opt lib [NT lib ''ArgumentList''], T lib '')'', T lib '';'']]]),
     (''EnumDeclaration'', \<lambda>_. D lib [Seq lib [ZOM lib [NT lib ''ClassModifier''], T lib ''enum'', NT lib ''TypeIdentifier'', Opt lib [NT lib ''ClassImplements''], NT lib ''EnumBody'']]),
     (''EnumBody'', \<lambda>_. D lib [Seq lib [T lib ''{'', Opt lib [NT lib ''EnumConstantList''], Opt lib [T lib '',''], Opt lib [NT lib ''EnumBodyDeclarations''], T lib ''}'']]),
     (''EnumConstantList'', \<lambda>_. D lib [Seq lib [NT lib ''EnumConstant'', ZOM lib [Seq lib [T lib '','', NT lib ''EnumConstant'']]]]),
     (''EnumConstant'', \<lambda>_. D lib [Seq lib [ZOM lib [NT lib ''EnumConstantModifier''], NT lib ''Identifier'', Opt lib [Seq lib [T lib ''('', Opt lib [NT lib ''ArgumentList''], T lib '')'']], Opt lib [NT lib ''ClassBody'']]]),
     (''EnumConstantModifier'', \<lambda>_. D lib [NT lib ''Annotation'']),
     (''EnumBodyDeclarations'', \<lambda>_. D lib [Seq lib [T lib '';'', ZOM lib [NT lib ''ClassBodyDeclaration'']]]),
     (''RecordDeclaration'', \<lambda>_. D lib [Seq lib [ZOM lib [NT lib ''ClassModifier''], T lib ''record'', NT lib ''TypeIdentifier'', Opt lib [NT lib ''TypeParameters''], NT lib ''RecordHeader'', Opt lib [NT lib ''ClassImplements''], NT lib ''RecordBody'']]),
     (''RecordHeader'', \<lambda>_. D lib [Seq lib [T lib ''('', Opt lib [NT lib ''RecordComponentList''], T lib '')'']]),
     (''RecordComponentList'', \<lambda>_. D lib [Seq lib [NT lib ''RecordComponent'', ZOM lib [Seq lib [T lib '','', NT lib ''RecordComponent'']]]]),
     (''RecordComponent'', \<lambda>_. D lib [Ch lib [num 0, Seq lib [ZOM lib [NT lib ''RecordComponentModifier''], NT lib ''UnannType'', NT lib ''Identifier''], NT lib ''VariableArityRecordComponent'']]),
     (''VariableArityRecordComponent'', \<lambda>_. D lib [Seq lib [ZOM lib [NT lib ''RecordComponentModifier''], NT lib ''UnannType'', ZOM lib [NT lib ''Annotation''], T lib ''...'', NT lib ''Identifier'']]),
     (''RecordComponentModifier'', \<lambda>_. D lib [NT lib ''Annotation'']),
     (''RecordBody'', \<lambda>_. D lib [Seq lib [T lib ''{'', ZOM lib [NT lib ''RecordBodyDeclaration''], T lib ''}'']]),
     (''RecordBodyDeclaration'', \<lambda>_. D lib [Ch lib [num 0, NT lib ''ClassBodyDeclaration'', NT lib ''CompactConstructorDeclaration'']]),
     (''CompactConstructorDeclaration'', \<lambda>_. D lib [Seq lib [ZOM lib [NT lib ''ConstructorModifier''], NT lib ''SimpleTypeName'', NT lib ''ConstructorBody'']])
    ]"

text \<open>\<^verbatim>\<open>// JLS 9 Interfaces\<close>\<close>

definition rules_interfaces :: "'n railroad \<Rightarrow> (string \<times> (unit \<Rightarrow> 'n js_val outcome)) list" where
  "rules_interfaces lib =
    [
     (''InterfaceDeclaration'', \<lambda>_. D lib [Ch lib [num 0, NT lib ''NormalInterfaceDeclaration'', NT lib ''AnnotationInterfaceDeclaration'']]),
     (''NormalInterfaceDeclaration'', \<lambda>_. D lib [Seq lib [ZOM lib [NT lib ''InterfaceModifier''], T lib ''interface'', NT lib ''TypeIdentifier'', Opt lib [NT lib ''TypeParameters''], Opt lib [NT lib ''InterfaceExtends''], Opt lib [NT lib ''InterfacePermits''], NT lib ''InterfaceBody'']]),
     (''InterfaceModifier'', \<lambda>_. D lib [Ch lib [num 0, NT lib ''Annotation'', T lib ''public'', T lib ''protected'', T lib ''private'', T lib ''abstract'', T lib ''static'', T lib ''sealed'', T lib ''non-sealed'', T lib ''strictfp'']]),
     (''InterfaceExtends'', \<lambda>_. D lib [Seq lib [T lib ''extends'', NT lib ''InterfaceTypeList'']]),
     (''InterfacePermits'', \<lambda>_. D lib [Seq lib [T lib ''permits'', NT lib ''TypeName'', ZOM lib [Seq lib [T lib '','', NT lib ''TypeName'']]]]),
     (''InterfaceBody'', \<lambda>_. D lib [Seq lib [T lib ''{'', ZOM lib [NT lib ''InterfaceMemberDeclaration''], T lib ''}'']]),
     (''InterfaceMemberDeclaration'', \<lambda>_. D lib [Ch lib [num 0, NT lib ''ConstantDeclaration'', NT lib ''InterfaceMethodDeclaration'', NT lib ''ClassDeclaration'', NT lib ''InterfaceDeclaration'', T lib '';'']]),
     (''ConstantDeclaration'', \<lambda>_. D lib [Seq lib [ZOM lib [NT lib ''ConstantModifier''], NT lib ''UnannType'', NT lib ''VariableDeclaratorList'', T lib '';'']]),
     (''ConstantModifier'', \<lambda>_. D lib [Ch lib [num 0, NT lib ''Annotation'', T lib ''public'', T lib ''static'', T lib ''final'']]),
     (''InterfaceMethodDeclaration'', \<lambda>_. D lib [Seq lib [ZOM lib [NT lib ''InterfaceMethodModifier''], NT lib ''MethodHeader'', NT lib ''MethodBody'']]),
     (''InterfaceMethodModifier'', \<lambda>_. D lib [Ch lib [num 0, NT lib ''Annotation'', T lib ''public'', T lib ''private'', T lib ''abstract'', T lib ''default'', T lib ''static'', T lib ''strictfp'']]),
     (''AnnotationInterfaceDeclaration'', \<lambda>_. D lib [Seq lib [ZOM lib [NT lib ''InterfaceModifier''], T lib ''@'', T lib ''interface'', NT lib ''TypeIdentifier'', NT lib ''AnnotationInterfaceBody'']]),
     (''AnnotationInterfaceBody'', \<lambda>_. D lib [Seq lib [T lib ''{'', ZOM lib [NT lib ''AnnotationInterfaceMemberDeclaration''], T lib ''}'']]),
     (''AnnotationInterfaceMemberDeclaration'', \<lambda>_. D lib [Ch lib [num 0, NT lib ''AnnotationInterfaceElementDeclaration'', NT lib ''ConstantDeclaration'', NT lib ''ClassDeclaration'', NT lib ''InterfaceDeclaration'', T lib '';'']]),
     (''AnnotationInterfaceElementDeclaration'', \<lambda>_. D lib [Seq lib [ZOM lib [NT lib ''AnnotationInterfaceElementModifier''], NT lib ''UnannType'', NT lib ''Identifier'', T lib ''('', T lib '')'', Opt lib [NT lib ''Dims''], Opt lib [NT lib ''DefaultValue''], T lib '';'']]),
     (''AnnotationInterfaceElementModifier'', \<lambda>_. D lib [Ch lib [num 0, NT lib ''Annotation'', T lib ''public'', T lib ''abstract'']]),
     (''DefaultValue'', \<lambda>_. D lib [Seq lib [T lib ''default'', NT lib ''ElementValue'']]),
     (''Annotation'', \<lambda>_. D lib [Ch lib [num 0, NT lib ''NormalAnnotation'', NT lib ''MarkerAnnotation'', NT lib ''SingleElementAnnotation'']]),
     (''NormalAnnotation'', \<lambda>_. D lib [Seq lib [T lib ''@'', NT lib ''TypeName'', T lib ''('', Opt lib [NT lib ''ElementValuePairList''], T lib '')'']]),
     (''ElementValuePairList'', \<lambda>_. D lib [Seq lib [NT lib ''ElementValuePair'', ZOM lib [Seq lib [T lib '','', NT lib ''ElementValuePair'']]]]),
     (''ElementValuePair'', \<lambda>_. D lib [Seq lib [NT lib ''Identifier'', T lib ''='', NT lib ''ElementValue'']]),
     (''ElementValue'', \<lambda>_. D lib [Ch lib [num 0, NT lib ''ConditionalExpression'', NT lib ''ElementValueArrayInitializer'', NT lib ''Annotation'']]),
     (''ElementValueArrayInitializer'', \<lambda>_. D lib [Seq lib [T lib ''{'', Opt lib [NT lib ''ElementValueList''], Opt lib [T lib '',''], T lib ''}'']]),
     (''ElementValueList'', \<lambda>_. D lib [Seq lib [NT lib ''ElementValue'', ZOM lib [Seq lib [T lib '','', NT lib ''ElementValue'']]]]),
     (''MarkerAnnotation'', \<lambda>_. D lib [Seq lib [T lib ''@'', NT lib ''TypeName'']]),
     (''SingleElementAnnotation'', \<lambda>_. D lib [Seq lib [T lib ''@'', NT lib ''TypeName'', T lib ''('', NT lib ''ElementValue'', T lib '')'']])
    ]"

text \<open>\<^verbatim>\<open>// JLS 10 Arrays\<close>\<close>

definition rules_arrays :: "'n railroad \<Rightarrow> (string \<times> (unit \<Rightarrow> 'n js_val outcome)) list" where
  "rules_arrays lib =
    [
     (''ArrayInitializer'', \<lambda>_. D lib [Seq lib [T lib ''{'', Opt lib [NT lib ''VariableInitializerList''], Opt lib [T lib '',''], T lib ''}'']]),
     (''VariableInitializerList'', \<lambda>_. D lib [Seq lib [NT lib ''VariableInitializer'', ZOM lib [Seq lib [T lib '','', NT lib ''VariableInitializer'']]]])
    ]"

text \<open>\<^verbatim>\<open>// JLS 14 Blocks, Statements, and Patterns\<close>\<close>

definition rules_statements :: "'n railroad \<Rightarrow> (string \<times> (unit \<Rightarrow> 'n js_val outcome)) list" where
  "rules_statements lib =
    [
     (''Block'', \<lambda>_. D lib [Seq lib [T lib ''{'', Opt lib [NT lib ''BlockStatements''], T lib ''}'']]),
     (''BlockStatements'', \<lambda>_. D lib [OOM lib [NT lib ''BlockStatement'']]),
     (''BlockStatement'', \<lambda>_. D lib [Ch lib [num 0, NT lib ''LocalClassOrInterfaceDeclaration'', NT lib ''LocalVariableDeclarationStatement'', NT lib ''Statement'']]),
     (''LocalClassOrInterfaceDeclaration'', \<lambda>_. D lib [Ch lib [num 0, NT lib ''ClassDeclaration'', NT lib ''NormalInterfaceDeclaration'']]),
     (''LocalVariableDeclarationStatement'', \<lambda>_. D lib [Seq lib [NT lib ''LocalVariableDeclaration'', T lib '';'']]),
     (''LocalVariableDeclaration'', \<lambda>_. D lib [Seq lib [ZOM lib [NT lib ''VariableModifier''], NT lib ''LocalVariableType'', NT lib ''VariableDeclaratorList'']]),
     (''LocalVariableType'', \<lambda>_. D lib [Ch lib [num 0, NT lib ''UnannType'', T lib ''var'']]),
     (''Statement'', \<lambda>_. D lib [Ch lib [num 0, NT lib ''StatementWithoutTrailingSubstatement'', NT lib ''LabeledStatement'', NT lib ''IfThenStatement'', NT lib ''IfThenElseStatement'', NT lib ''WhileStatement'', NT lib ''ForStatement'']]),
     (''StatementNoShortIf'', \<lambda>_. D lib [Ch lib [num 0, NT lib ''StatementWithoutTrailingSubstatement'', NT lib ''LabeledStatementNoShortIf'', NT lib ''IfThenElseStatementNoShortIf'', NT lib ''WhileStatementNoShortIf'', NT lib ''ForStatementNoShortIf'']]),
     (''StatementWithoutTrailingSubstatement'', \<lambda>_. D lib [Ch lib [num 0, NT lib ''Block'', NT lib ''EmptyStatement'', NT lib ''ExpressionStatement'', NT lib ''AssertStatement'', NT lib ''SwitchStatement'', NT lib ''DoStatement'', NT lib ''BreakStatement'', NT lib ''ContinueStatement'', NT lib ''ReturnStatement'', NT lib ''SynchronizedStatement'', NT lib ''ThrowStatement'', NT lib ''TryStatement'', NT lib ''YieldStatement'']]),
     (''EmptyStatement'', \<lambda>_. D lib [T lib '';'']),
     (''LabeledStatement'', \<lambda>_. D lib [Seq lib [NT lib ''Identifier'', T lib '':'', NT lib ''Statement'']]),
     (''LabeledStatementNoShortIf'', \<lambda>_. D lib [Seq lib [NT lib ''Identifier'', T lib '':'', NT lib ''StatementNoShortIf'']]),
     (''ExpressionStatement'', \<lambda>_. D lib [Seq lib [NT lib ''StatementExpression'', T lib '';'']]),
     (''StatementExpression'', \<lambda>_. D lib [Ch lib [num 0, NT lib ''Assignment'', NT lib ''PreIncrementExpression'', NT lib ''PreDecrementExpression'', NT lib ''PostIncrementExpression'', NT lib ''PostDecrementExpression'', NT lib ''MethodInvocation'', NT lib ''ClassInstanceCreationExpression'']]),
     (''IfThenStatement'', \<lambda>_. D lib [Seq lib [T lib ''if'', T lib ''('', NT lib ''Expression'', T lib '')'', NT lib ''Statement'']]),
     (''IfThenElseStatement'', \<lambda>_. D lib [Seq lib [T lib ''if'', T lib ''('', NT lib ''Expression'', T lib '')'', NT lib ''StatementNoShortIf'', T lib ''else'', NT lib ''Statement'']]),
     (''IfThenElseStatementNoShortIf'', \<lambda>_. D lib [Seq lib [T lib ''if'', T lib ''('', NT lib ''Expression'', T lib '')'', NT lib ''StatementNoShortIf'', T lib ''else'', NT lib ''StatementNoShortIf'']]),
     (''AssertStatement'', \<lambda>_. D lib [Ch lib [num 0, Seq lib [T lib ''assert'', NT lib ''Expression'', T lib '';''], Seq lib [T lib ''assert'', NT lib ''Expression'', T lib '':'', NT lib ''Expression'', T lib '';'']]]),
     (''SwitchStatement'', \<lambda>_. D lib [Seq lib [T lib ''switch'', T lib ''('', NT lib ''Expression'', T lib '')'', NT lib ''SwitchBlock'']]),
     (''SwitchBlock'', \<lambda>_. D lib [Ch lib [num 0, Seq lib [T lib ''{'', OOM lib [NT lib ''SwitchRule''], T lib ''}''], Seq lib [T lib ''{'', ZOM lib [NT lib ''SwitchBlockStatementGroup''], ZOM lib [Seq lib [NT lib ''SwitchLabel'', T lib '':'']], T lib ''}'']]]),
     (''SwitchRule'', \<lambda>_. D lib [Ch lib [num 0, Seq lib [NT lib ''SwitchLabel'', T lib ''->'', NT lib ''Expression'', T lib '';''], Seq lib [NT lib ''SwitchLabel'', T lib ''->'', NT lib ''Block''], Seq lib [NT lib ''SwitchLabel'', T lib ''->'', NT lib ''ThrowStatement'']]]),
     (''SwitchBlockStatementGroup'', \<lambda>_. D lib [Seq lib [NT lib ''SwitchLabel'', T lib '':'', ZOM lib [Seq lib [NT lib ''SwitchLabel'', T lib '':'']], NT lib ''BlockStatements'']]),
     (''SwitchLabel'', \<lambda>_. D lib [Ch lib [num 0, Seq lib [T lib ''case'', NT lib ''CaseConstant'', ZOM lib [Seq lib [T lib '','', NT lib ''CaseConstant'']]], Seq lib [T lib ''case'', T lib ''null'', Opt lib [Seq lib [T lib '','', T lib ''default'']]], Seq lib [T lib ''case'', NT lib ''CasePattern'', ZOM lib [Seq lib [T lib '','', NT lib ''CasePattern'']], Opt lib [NT lib ''Guard'']], T lib ''default'']]),
     (''CaseConstant'', \<lambda>_. D lib [NT lib ''ConditionalExpression'']),
     (''CasePattern'', \<lambda>_. D lib [NT lib ''Pattern'']),
     (''Guard'', \<lambda>_. D lib [Seq lib [T lib ''when'', NT lib ''Expression'']]),
     (''WhileStatement'', \<lambda>_. D lib [Seq lib [T lib ''while'', T lib ''('', NT lib ''Expression'', T lib '')'', NT lib ''Statement'']]),
     (''WhileStatementNoShortIf'', \<lambda>_. D lib [Seq lib [T lib ''while'', T lib ''('', NT lib ''Expression'', T lib '')'', NT lib ''StatementNoShortIf'']]),
     (''DoStatement'', \<lambda>_. D lib [Seq lib [T lib ''do'', NT lib ''Statement'', T lib ''while'', T lib ''('', NT lib ''Expression'', T lib '')'', T lib '';'']]),
     (''ForStatement'', \<lambda>_. D lib [Ch lib [num 0, NT lib ''BasicForStatement'', NT lib ''EnhancedForStatement'']]),
     (''ForStatementNoShortIf'', \<lambda>_. D lib [Ch lib [num 0, NT lib ''BasicForStatementNoShortIf'', NT lib ''EnhancedForStatementNoShortIf'']]),
     (''BasicForStatement'', \<lambda>_. D lib [Seq lib [T lib ''for'', T lib ''('', Opt lib [NT lib ''ForInit''], T lib '';'', Opt lib [NT lib ''Expression''], T lib '';'', Opt lib [NT lib ''ForUpdate''], T lib '')'', NT lib ''Statement'']]),
     (''BasicForStatementNoShortIf'', \<lambda>_. D lib [Seq lib [T lib ''for'', T lib ''('', Opt lib [NT lib ''ForInit''], T lib '';'', Opt lib [NT lib ''Expression''], T lib '';'', Opt lib [NT lib ''ForUpdate''], T lib '')'', NT lib ''StatementNoShortIf'']]),
     (''ForInit'', \<lambda>_. D lib [Ch lib [num 0, NT lib ''StatementExpressionList'', NT lib ''LocalVariableDeclaration'']]),
     (''ForUpdate'', \<lambda>_. D lib [NT lib ''StatementExpressionList'']),
     (''StatementExpressionList'', \<lambda>_. D lib [Seq lib [NT lib ''StatementExpression'', ZOM lib [Seq lib [T lib '','', NT lib ''StatementExpression'']]]]),
     (''EnhancedForStatement'', \<lambda>_. D lib [Seq lib [T lib ''for'', T lib ''('', NT lib ''LocalVariableDeclaration'', T lib '':'', NT lib ''Expression'', T lib '')'', NT lib ''Statement'']]),
     (''EnhancedForStatementNoShortIf'', \<lambda>_. D lib [Seq lib [T lib ''for'', T lib ''('', NT lib ''LocalVariableDeclaration'', T lib '':'', NT lib ''Expression'', T lib '')'', NT lib ''StatementNoShortIf'']]),
     (''BreakStatement'', \<lambda>_. D lib [Seq lib [T lib ''break'', Opt lib [NT lib ''Identifier''], T lib '';'']]),
     (''YieldStatement'', \<lambda>_. D lib [Seq lib [T lib ''yield'', NT lib ''Expression'', T lib '';'']]),
     (''ContinueStatement'', \<lambda>_. D lib [Seq lib [T lib ''continue'', Opt lib [NT lib ''Identifier''], T lib '';'']]),
     (''ReturnStatement'', \<lambda>_. D lib [Seq lib [T lib ''return'', Opt lib [NT lib ''Expression''], T lib '';'']]),
     (''ThrowStatement'', \<lambda>_. D lib [Seq lib [T lib ''throw'', NT lib ''Expression'', T lib '';'']]),
     (''SynchronizedStatement'', \<lambda>_. D lib [Seq lib [T lib ''synchronized'', T lib ''('', NT lib ''Expression'', T lib '')'', NT lib ''Block'']]),
     (''TryStatement'', \<lambda>_. D lib [Ch lib [num 0, Seq lib [T lib ''try'', NT lib ''Block'', NT lib ''Catches''], Seq lib [T lib ''try'', NT lib ''Block'', Opt lib [NT lib ''Catches''], NT lib ''Finally''], NT lib ''TryWithResourcesStatement'']]),
     (''Catches'', \<lambda>_. D lib [OOM lib [NT lib ''CatchClause'']]),
     (''CatchClause'', \<lambda>_. D lib [Seq lib [T lib ''catch'', T lib ''('', NT lib ''CatchFormalParameter'', T lib '')'', NT lib ''Block'']]),
     (''CatchFormalParameter'', \<lambda>_. D lib [Seq lib [ZOM lib [NT lib ''VariableModifier''], NT lib ''CatchType'', NT lib ''VariableDeclaratorId'']]),
     (''CatchType'', \<lambda>_. D lib [Seq lib [NT lib ''UnannClassType'', ZOM lib [Seq lib [T lib ''|'', NT lib ''ClassType'']]]]),
     (''Finally'', \<lambda>_. D lib [Seq lib [T lib ''finally'', NT lib ''Block'']]),
     (''TryWithResourcesStatement'', \<lambda>_. D lib [Seq lib [T lib ''try'', NT lib ''ResourceSpecification'', NT lib ''Block'', Opt lib [NT lib ''Catches''], Opt lib [NT lib ''Finally'']]]),
     (''ResourceSpecification'', \<lambda>_. D lib [Seq lib [T lib ''('', NT lib ''ResourceList'', Opt lib [T lib '';''], T lib '')'']]),
     (''ResourceList'', \<lambda>_. D lib [Seq lib [NT lib ''Resource'', ZOM lib [Seq lib [T lib '';'', NT lib ''Resource'']]]]),
     (''Resource'', \<lambda>_. D lib [Ch lib [num 0, NT lib ''LocalVariableDeclaration'', NT lib ''VariableAccess'']]),
     (''VariableAccess'', \<lambda>_. D lib [Ch lib [num 0, NT lib ''ExpressionName'', NT lib ''FieldAccess'']]),
     (''Pattern'', \<lambda>_. D lib [Ch lib [num 0, NT lib ''TypePattern'', NT lib ''RecordPattern'']]),
     (''TypePattern'', \<lambda>_. D lib [NT lib ''LocalVariableDeclaration'']),
     (''RecordPattern'', \<lambda>_. D lib [Seq lib [NT lib ''ReferenceType'', T lib ''('', Opt lib [NT lib ''ComponentPatternList''], T lib '')'']]),
     (''ComponentPatternList'', \<lambda>_. D lib [Seq lib [NT lib ''ComponentPattern'', ZOM lib [Seq lib [T lib '','', NT lib ''ComponentPattern'']]]]),
     (''ComponentPattern'', \<lambda>_. D lib [Ch lib [num 0, NT lib ''Pattern'', NT lib ''MatchAllPattern'']]),
     (''MatchAllPattern'', \<lambda>_. D lib [T lib ''_''])
    ]"

text \<open>\<^verbatim>\<open>// JLS 15 Expressions\<close>\<close>

definition rules_expressions :: "'n railroad \<Rightarrow> (string \<times> (unit \<Rightarrow> 'n js_val outcome)) list" where
  "rules_expressions lib =
    [
     (''Primary'', \<lambda>_. D lib [Ch lib [num 0, NT lib ''PrimaryNoNewArray'', NT lib ''ArrayCreationExpression'']]),
     (''PrimaryNoNewArray'', \<lambda>_. D lib [Ch lib [num 0, NT lib ''Literal'', NT lib ''ClassLiteral'', T lib ''this'', Seq lib [NT lib ''TypeName'', T lib ''.'', T lib ''this''], Seq lib [T lib ''('', NT lib ''Expression'', T lib '')''], NT lib ''ClassInstanceCreationExpression'', NT lib ''FieldAccess'', NT lib ''ArrayAccess'', NT lib ''MethodInvocation'', NT lib ''MethodReference'']]),
     (''ClassLiteral'', \<lambda>_. D lib [Ch lib [num 0, Seq lib [NT lib ''TypeName'', ZOM lib [Seq lib [T lib ''['', T lib '']'']], T lib ''.'', T lib ''class''], Seq lib [NT lib ''NumericType'', ZOM lib [Seq lib [T lib ''['', T lib '']'']], T lib ''.'', T lib ''class''], Seq lib [T lib ''boolean'', ZOM lib [Seq lib [T lib ''['', T lib '']'']], T lib ''.'', T lib ''class''], Seq lib [T lib ''void'', T lib ''.'', T lib ''class'']]]),
     (''ClassInstanceCreationExpression'', \<lambda>_. D lib [Ch lib [num 0, NT lib ''UnqualifiedClassInstanceCreationExpression'', Seq lib [NT lib ''ExpressionName'', T lib ''.'', NT lib ''UnqualifiedClassInstanceCreationExpression''], Seq lib [NT lib ''Primary'', T lib ''.'', NT lib ''UnqualifiedClassInstanceCreationExpression'']]]),
     (''UnqualifiedClassInstanceCreationExpression'', \<lambda>_. D lib [Seq lib [T lib ''new'', Opt lib [NT lib ''TypeArguments''], NT lib ''ClassOrInterfaceTypeToInstantiate'', T lib ''('', Opt lib [NT lib ''ArgumentList''], T lib '')'', Opt lib [NT lib ''ClassBody'']]]),
     (''ClassOrInterfaceTypeToInstantiate'', \<lambda>_. D lib [Seq lib [ZOM lib [NT lib ''Annotation''], NT lib ''Identifier'', ZOM lib [Seq lib [T lib ''.'', ZOM lib [NT lib ''Annotation''], NT lib ''Identifier'']], Opt lib [NT lib ''TypeArgumentsOrDiamond'']]]),
     (''TypeArgumentsOrDiamond'', \<lambda>_. D lib [Ch lib [num 0, NT lib ''TypeArguments'', Seq lib [T lib ''<'', T lib ''>'']]]),
     (''ArrayCreationExpression'', \<lambda>_. D lib [Ch lib [num 0, NT lib ''ArrayCreationExpressionWithoutInitializer'', NT lib ''ArrayCreationExpressionWithInitializer'']]),
     (''ArrayCreationExpressionWithoutInitializer'', \<lambda>_. D lib [Ch lib [num 0, Seq lib [T lib ''new'', NT lib ''PrimitiveType'', NT lib ''DimExprs'', Opt lib [NT lib ''Dims'']], Seq lib [T lib ''new'', NT lib ''ClassOrInterfaceType'', NT lib ''DimExprs'', Opt lib [NT lib ''Dims'']]]]),
     (''ArrayCreationExpressionWithInitializer'', \<lambda>_. D lib [Ch lib [num 0, Seq lib [T lib ''new'', NT lib ''PrimitiveType'', NT lib ''Dims'', NT lib ''ArrayInitializer''], Seq lib [T lib ''new'', NT lib ''ClassOrInterfaceType'', NT lib ''Dims'', NT lib ''ArrayInitializer'']]]),
     (''DimExprs'', \<lambda>_. D lib [OOM lib [NT lib ''DimExpr'']]),
     (''DimExpr'', \<lambda>_. D lib [Seq lib [ZOM lib [NT lib ''Annotation''], T lib ''['', NT lib ''Expression'', T lib '']'']]),
     (''ArrayAccess'', \<lambda>_. D lib [Ch lib [num 0, Seq lib [NT lib ''ExpressionName'', T lib ''['', NT lib ''Expression'', T lib '']''], Seq lib [NT lib ''PrimaryNoNewArray'', T lib ''['', NT lib ''Expression'', T lib '']''], Seq lib [NT lib ''ArrayCreationExpressionWithInitializer'', T lib ''['', NT lib ''Expression'', T lib '']'']]]),
     (''FieldAccess'', \<lambda>_. D lib [Ch lib [num 0, Seq lib [NT lib ''Primary'', T lib ''.'', NT lib ''Identifier''], Seq lib [T lib ''super'', T lib ''.'', NT lib ''Identifier''], Seq lib [NT lib ''TypeName'', T lib ''.'', T lib ''super'', T lib ''.'', NT lib ''Identifier'']]]),
     (''MethodInvocation'', \<lambda>_. D lib [Ch lib [num 0, Seq lib [NT lib ''MethodName'', T lib ''('', Opt lib [NT lib ''ArgumentList''], T lib '')''], Seq lib [NT lib ''TypeName'', T lib ''.'', Opt lib [NT lib ''TypeArguments''], NT lib ''Identifier'', T lib ''('', Opt lib [NT lib ''ArgumentList''], T lib '')''], Seq lib [NT lib ''ExpressionName'', T lib ''.'', Opt lib [NT lib ''TypeArguments''], NT lib ''Identifier'', T lib ''('', Opt lib [NT lib ''ArgumentList''], T lib '')''], Seq lib [NT lib ''Primary'', T lib ''.'', Opt lib [NT lib ''TypeArguments''], NT lib ''Identifier'', T lib ''('', Opt lib [NT lib ''ArgumentList''], T lib '')''], Seq lib [T lib ''super'', T lib ''.'', Opt lib [NT lib ''TypeArguments''], NT lib ''Identifier'', T lib ''('', Opt lib [NT lib ''ArgumentList''], T lib '')''], Seq lib [NT lib ''TypeName'', T lib ''.'', T lib ''super'', T lib ''.'', Opt lib [NT lib ''TypeArguments''], NT lib ''Identifier'', T lib ''('', Opt lib [NT lib ''ArgumentList''], T lib '')'']]]),
     (''ArgumentList'', \<lambda>_. D lib [Seq lib [NT lib ''Expression'', ZOM lib [Seq lib [T lib '','', NT lib ''Expression'']]]]),
     (''MethodReference'', \<lambda>_. D lib [Ch lib [num 0, Seq lib [NT lib ''ExpressionName'', T lib ''::'', Opt lib [NT lib ''TypeArguments''], NT lib ''Identifier''], Seq lib [NT lib ''Primary'', T lib ''::'', Opt lib [NT lib ''TypeArguments''], NT lib ''Identifier''], Seq lib [NT lib ''ReferenceType'', T lib ''::'', Opt lib [NT lib ''TypeArguments''], NT lib ''Identifier''], Seq lib [T lib ''super'', T lib ''::'', Opt lib [NT lib ''TypeArguments''], NT lib ''Identifier''], Seq lib [NT lib ''TypeName'', T lib ''.'', T lib ''super'', T lib ''::'', Opt lib [NT lib ''TypeArguments''], NT lib ''Identifier''], Seq lib [NT lib ''ClassType'', T lib ''::'', Opt lib [NT lib ''TypeArguments''], T lib ''new''], Seq lib [NT lib ''ArrayType'', T lib ''::'', T lib ''new'']]]),
     (''Expression'', \<lambda>_. D lib [Ch lib [num 0, NT lib ''LambdaExpression'', NT lib ''AssignmentExpression'']]),
     (''LambdaExpression'', \<lambda>_. D lib [Seq lib [NT lib ''LambdaParameters'', T lib ''->'', NT lib ''LambdaBody'']]),
     (''LambdaParameters'', \<lambda>_. D lib [Ch lib [num 0, Seq lib [T lib ''('', Opt lib [NT lib ''LambdaParameterList''], T lib '')''], NT lib ''ConciseLambdaParameter'']]),
     (''LambdaParameterList'', \<lambda>_. D lib [Ch lib [num 0, Seq lib [NT lib ''NormalLambdaParameter'', ZOM lib [Seq lib [T lib '','', NT lib ''NormalLambdaParameter'']]], Seq lib [NT lib ''ConciseLambdaParameter'', ZOM lib [Seq lib [T lib '','', NT lib ''ConciseLambdaParameter'']]]]]),
     (''NormalLambdaParameter'', \<lambda>_. D lib [Ch lib [num 0, Seq lib [ZOM lib [NT lib ''VariableModifier''], NT lib ''LambdaParameterType'', NT lib ''VariableDeclaratorId''], NT lib ''VariableArityParameter'']]),
     (''LambdaParameterType'', \<lambda>_. D lib [Ch lib [num 0, NT lib ''UnannType'', T lib ''var'']]),
     (''ConciseLambdaParameter'', \<lambda>_. D lib [Ch lib [num 0, NT lib ''Identifier'', T lib ''_'']]),
     (''LambdaBody'', \<lambda>_. D lib [Ch lib [num 0, NT lib ''Expression'', NT lib ''Block'']]),
     (''AssignmentExpression'', \<lambda>_. D lib [Ch lib [num 0, NT lib ''ConditionalExpression'', NT lib ''Assignment'']]),
     (''Assignment'', \<lambda>_. D lib [Seq lib [NT lib ''LeftHandSide'', NT lib ''AssignmentOperator'', NT lib ''Expression'']]),
     (''LeftHandSide'', \<lambda>_. D lib [Ch lib [num 0, NT lib ''ExpressionName'', NT lib ''FieldAccess'', NT lib ''ArrayAccess'']]),
     (''AssignmentOperator'', \<lambda>_. D lib [Ch lib [num 0, T lib ''='', T lib ''*='', T lib ''/='', T lib ''%='', T lib ''+='', T lib ''-='', T lib ''<<='', T lib ''>>='', T lib ''>>>='', T lib ''&='', T lib ''^='', T lib ''|='']]),
     (''ConditionalExpression'', \<lambda>_. D lib [Ch lib [num 0, NT lib ''ConditionalOrExpression'', Seq lib [NT lib ''ConditionalOrExpression'', T lib ''?'', NT lib ''Expression'', T lib '':'', NT lib ''ConditionalExpression''], Seq lib [NT lib ''ConditionalOrExpression'', T lib ''?'', NT lib ''Expression'', T lib '':'', NT lib ''LambdaExpression'']]]),
     (''ConditionalOrExpression'', \<lambda>_. D lib [Seq lib [NT lib ''ConditionalAndExpression'', ZOM lib [Seq lib [T lib ''||'', NT lib ''ConditionalAndExpression'']]]]),
     (''ConditionalAndExpression'', \<lambda>_. D lib [Seq lib [NT lib ''InclusiveOrExpression'', ZOM lib [Seq lib [T lib ''&&'', NT lib ''InclusiveOrExpression'']]]]),
     (''InclusiveOrExpression'', \<lambda>_. D lib [Seq lib [NT lib ''ExclusiveOrExpression'', ZOM lib [Seq lib [T lib ''|'', NT lib ''ExclusiveOrExpression'']]]]),
     (''ExclusiveOrExpression'', \<lambda>_. D lib [Seq lib [NT lib ''AndExpression'', ZOM lib [Seq lib [T lib ''^'', NT lib ''AndExpression'']]]]),
     (''AndExpression'', \<lambda>_. D lib [Seq lib [NT lib ''EqualityExpression'', ZOM lib [Seq lib [T lib ''&'', NT lib ''EqualityExpression'']]]]),
     (''EqualityExpression'', \<lambda>_. D lib [Seq lib [NT lib ''RelationalExpression'', ZOM lib [Ch lib [num 0, Seq lib [T lib ''=='', NT lib ''RelationalExpression''], Seq lib [T lib ''!='', NT lib ''RelationalExpression'']]]]]),
     (''RelationalExpression'', \<lambda>_. D lib [Ch lib [num 0, NT lib ''ShiftExpression'', Seq lib [NT lib ''RelationalExpression'', T lib ''<'', NT lib ''ShiftExpression''], Seq lib [NT lib ''RelationalExpression'', T lib ''>'', NT lib ''ShiftExpression''], Seq lib [NT lib ''RelationalExpression'', T lib ''<='', NT lib ''ShiftExpression''], Seq lib [NT lib ''RelationalExpression'', T lib ''>='', NT lib ''ShiftExpression''], NT lib ''InstanceofExpression'']]),
     (''InstanceofExpression'', \<lambda>_. D lib [Ch lib [num 0, Seq lib [NT lib ''RelationalExpression'', T lib ''instanceof'', NT lib ''ReferenceType''], Seq lib [NT lib ''RelationalExpression'', T lib ''instanceof'', NT lib ''Pattern'']]]),
     (''ShiftExpression'', \<lambda>_. D lib [Seq lib [NT lib ''AdditiveExpression'', ZOM lib [Ch lib [num 0, Seq lib [T lib ''<<'', NT lib ''AdditiveExpression''], Seq lib [T lib ''>>'', NT lib ''AdditiveExpression''], Seq lib [T lib ''>>>'', NT lib ''AdditiveExpression'']]]]]),
     (''AdditiveExpression'', \<lambda>_. D lib [Seq lib [NT lib ''MultiplicativeExpression'', ZOM lib [Ch lib [num 0, Seq lib [T lib ''+'', NT lib ''MultiplicativeExpression''], Seq lib [T lib ''-'', NT lib ''MultiplicativeExpression'']]]]]),
     (''MultiplicativeExpression'', \<lambda>_. D lib [Seq lib [NT lib ''UnaryExpression'', ZOM lib [Ch lib [num 0, Seq lib [T lib ''*'', NT lib ''UnaryExpression''], Seq lib [T lib ''/'', NT lib ''UnaryExpression''], Seq lib [T lib ''%'', NT lib ''UnaryExpression'']]]]]),
     (''UnaryExpression'', \<lambda>_. D lib [Ch lib [num 0, NT lib ''PreIncrementExpression'', NT lib ''PreDecrementExpression'', Seq lib [T lib ''+'', NT lib ''UnaryExpression''], Seq lib [T lib ''-'', NT lib ''UnaryExpression''], NT lib ''UnaryExpressionNotPlusMinus'']]),
     (''PreIncrementExpression'', \<lambda>_. D lib [Seq lib [T lib ''++'', NT lib ''UnaryExpression'']]),
     (''PreDecrementExpression'', \<lambda>_. D lib [Seq lib [T lib ''--'', NT lib ''UnaryExpression'']]),
     (''UnaryExpressionNotPlusMinus'', \<lambda>_. D lib [Ch lib [num 0, NT lib ''PostfixExpression'', Seq lib [T lib ''~'', NT lib ''UnaryExpression''], Seq lib [T lib ''!'', NT lib ''UnaryExpression''], NT lib ''CastExpression'', NT lib ''SwitchExpression'']]),
     (''PostfixExpression'', \<lambda>_. D lib [Ch lib [num 0, NT lib ''Primary'', NT lib ''ExpressionName'', NT lib ''PostIncrementExpression'', NT lib ''PostDecrementExpression'']]),
     (''PostIncrementExpression'', \<lambda>_. D lib [Seq lib [NT lib ''PostfixExpression'', T lib ''++'']]),
     (''PostDecrementExpression'', \<lambda>_. D lib [Seq lib [NT lib ''PostfixExpression'', T lib ''--'']]),
     (''CastExpression'', \<lambda>_. D lib [Ch lib [num 0, Seq lib [T lib ''('', NT lib ''PrimitiveType'', T lib '')'', NT lib ''UnaryExpression''], Seq lib [T lib ''('', NT lib ''ReferenceType'', ZOM lib [NT lib ''AdditionalBound''], T lib '')'', NT lib ''UnaryExpressionNotPlusMinus''], Seq lib [T lib ''('', NT lib ''ReferenceType'', ZOM lib [NT lib ''AdditionalBound''], T lib '')'', NT lib ''LambdaExpression'']]]),
     (''SwitchExpression'', \<lambda>_. D lib [Seq lib [T lib ''switch'', T lib ''('', NT lib ''Expression'', T lib '')'', NT lib ''SwitchBlock'']])
    ]"

definition rules_set_calls :: "'n railroad \<Rightarrow> (string \<times> (unit \<Rightarrow> 'n js_val outcome)) list" where
  "rules_set_calls lib =
     rules_lexical lib @ rules_types lib @ rules_names lib @ rules_packages lib @
     rules_classes lib @ rules_interfaces lib @ rules_arrays lib @ rules_statements lib @
     rules_expressions lib"

text \<open>\<^verbatim>\<open>const rules = new Map()\<close>, after the module has run every \<^verbatim>\<open>rules.set\<close>.\<close>

definition rules :: "'n railroad \<Rightarrow> (string, unit \<Rightarrow> 'n js_val outcome) js_map" where
  "rules lib = fold (\<lambda>(name, factory). Map_set name factory) (rules_set_calls lib) []"

text \<open>\<^verbatim>\<open>return factory ? factory() : undefined;\<close>\<close>

definition createRuleDiagram :: "'n railroad \<Rightarrow> string \<Rightarrow> 'n js_val outcome" where
  "createRuleDiagram lib name =
     (case Map_get (rules lib) name of
        Some factory \<Rightarrow> factory ()
      | None \<Rightarrow> Inr Undefined)"

definition getDiagramRuleNames :: "'n railroad \<Rightarrow> string list" where
  "getDiagramRuleNames lib = Map_keys (rules lib)"


subsection \<open>The section index\<close>

datatype SectionId =
  Lexical | Types | Names | Packages | Classes | Interfaces | Arrays | Statements | Expressions

definition SECTION_ORDER :: "SectionId list" where
  "SECTION_ORDER =
     [Lexical, Types, Names, Packages, Classes, Interfaces, Arrays, Statements, Expressions]"

fun SECTION_RULES :: "SectionId \<Rightarrow> string list" where
  "SECTION_RULES Lexical =
    [
     ''Identifier'', ''IdentifierChars'', ''JavaLetter'', ''JavaLetterOrDigit'',
     ''TypeIdentifier'', ''UnqualifiedMethodIdentifier'', ''Literal''
    ]"
| "SECTION_RULES Types =
    [
     ''Type'', ''PrimitiveType'', ''NumericType'', ''IntegralType'', ''FloatingPointType'',
     ''ReferenceType'', ''ClassOrInterfaceType'', ''ClassType'', ''InterfaceType'',
     ''TypeVariable'', ''ArrayType'', ''Dims'', ''TypeParameter'', ''TypeParameterModifier'',
     ''TypeBound'', ''AdditionalBound'', ''TypeArguments'', ''TypeArgumentList'',
     ''TypeArgument'', ''Wildcard'', ''WildcardBounds''
    ]"
| "SECTION_RULES Names =
    [
     ''ModuleName'', ''PackageName'', ''TypeName'', ''ExpressionName'', ''MethodName'',
     ''PackageOrTypeName'', ''AmbiguousName''
    ]"
| "SECTION_RULES Packages =
    [
     ''CompilationUnit'', ''OrdinaryCompilationUnit'', ''ModularCompilationUnit'',
     ''PackageDeclaration'', ''PackageModifier'', ''ImportDeclaration'',
     ''SingleTypeImportDeclaration'', ''TypeImportOnDemandDeclaration'',
     ''SingleStaticImportDeclaration'', ''StaticImportOnDemandDeclaration'',
     ''SingleModuleImportDeclaration'', ''TopLevelClassOrInterfaceDeclaration'',
     ''ModuleDeclaration'', ''ModuleDirective'', ''RequiresModifier''
    ]"
| "SECTION_RULES Classes =
    [
     ''ClassDeclaration'', ''NormalClassDeclaration'', ''ClassModifier'', ''TypeParameters'',
     ''TypeParameterList'', ''ClassExtends'', ''ClassImplements'', ''InterfaceTypeList'',
     ''ClassPermits'', ''ClassBody'', ''ClassBodyDeclaration'', ''ClassMemberDeclaration'',
     ''FieldDeclaration'', ''FieldModifier'', ''VariableDeclaratorList'',
     ''VariableDeclarator'', ''VariableDeclaratorId'', ''VariableInitializer'', ''UnannType'',
     ''UnannPrimitiveType'', ''UnannReferenceType'', ''UnannClassOrInterfaceType'',
     ''UnannClassType'', ''UnannInterfaceType'', ''UnannTypeVariable'', ''UnannArrayType'',
     ''MethodDeclaration'', ''MethodModifier'', ''MethodHeader'', ''Result'',
     ''MethodDeclarator'', ''ReceiverParameter'', ''FormalParameterList'', ''FormalParameter'',
     ''VariableArityParameter'', ''VariableModifier'', ''Throws'', ''ExceptionTypeList'',
     ''ExceptionType'', ''MethodBody'', ''InstanceInitializer'', ''StaticInitializer'',
     ''ConstructorDeclaration'', ''ConstructorModifier'', ''ConstructorDeclarator'',
     ''SimpleTypeName'', ''ConstructorBody'', ''ConstructorInvocation'', ''EnumDeclaration'',
     ''EnumBody'', ''EnumConstantList'', ''EnumConstant'', ''EnumConstantModifier'',
     ''EnumBodyDeclarations'', ''RecordDeclaration'', ''RecordHeader'',
     ''RecordComponentList'', ''RecordComponent'', ''VariableArityRecordComponent'',
     ''RecordComponentModifier'', ''RecordBody'', ''RecordBodyDeclaration'',
     ''CompactConstructorDeclaration''
    ]"
| "SECTION_RULES Interfaces =
    [
     ''InterfaceDeclaration'', ''NormalInterfaceDeclaration'', ''InterfaceModifier'',
     ''InterfaceExtends'', ''InterfacePermits'', ''InterfaceBody'',
     ''InterfaceMemberDeclaration'', ''ConstantDeclaration'', ''ConstantModifier'',
     ''InterfaceMethodDeclaration'', ''InterfaceMethodModifier'',
     ''AnnotationInterfaceDeclaration'', ''AnnotationInterfaceBody'',
     ''AnnotationInterfaceMemberDeclaration'', ''AnnotationInterfaceElementDeclaration'',
     ''AnnotationInterfaceElementModifier'', ''DefaultValue'', ''Annotation'',
     ''NormalAnnotation'', ''ElementValuePairList'', ''ElementValuePair'', ''ElementValue'',
     ''ElementValueArrayInitializer'', ''ElementValueList'', ''MarkerAnnotation'',
     ''SingleElementAnnotation''
    ]"
| "SECTION_RULES Arrays =
    [
     ''ArrayInitializer'', ''VariableInitializerList''
    ]"
| "SECTION_RULES Statements =
    [
     ''Block'', ''BlockStatements'', ''BlockStatement'', ''LocalClassOrInterfaceDeclaration'',
     ''LocalVariableDeclarationStatement'', ''LocalVariableDeclaration'',
     ''LocalVariableType'', ''Statement'', ''StatementNoShortIf'',
     ''StatementWithoutTrailingSubstatement'', ''EmptyStatement'', ''LabeledStatement'',
     ''LabeledStatementNoShortIf'', ''ExpressionStatement'', ''StatementExpression'',
     ''IfThenStatement'', ''IfThenElseStatement'', ''IfThenElseStatementNoShortIf'',
     ''AssertStatement'', ''SwitchStatement'', ''SwitchBlock'', ''SwitchRule'',
     ''SwitchBlockStatementGroup'', ''SwitchLabel'', ''CaseConstant'', ''CasePattern'',
     ''Guard'', ''WhileStatement'', ''WhileStatementNoShortIf'', ''DoStatement'',
     ''ForStatement'', ''ForStatementNoShortIf'', ''BasicForStatement'',
     ''BasicForStatementNoShortIf'', ''ForInit'', ''ForUpdate'', ''StatementExpressionList'',
     ''EnhancedForStatement'', ''EnhancedForStatementNoShortIf'', ''BreakStatement'',
     ''YieldStatement'', ''ContinueStatement'', ''ReturnStatement'', ''ThrowStatement'',
     ''SynchronizedStatement'', ''TryStatement'', ''Catches'', ''CatchClause'',
     ''CatchFormalParameter'', ''CatchType'', ''Finally'', ''TryWithResourcesStatement'',
     ''ResourceSpecification'', ''ResourceList'', ''Resource'', ''VariableAccess'',
     ''Pattern'', ''TypePattern'', ''RecordPattern'', ''ComponentPatternList'',
     ''ComponentPattern'', ''MatchAllPattern''
    ]"
| "SECTION_RULES Expressions =
    [
     ''Primary'', ''PrimaryNoNewArray'', ''ClassLiteral'', ''ClassInstanceCreationExpression'',
     ''UnqualifiedClassInstanceCreationExpression'', ''ClassOrInterfaceTypeToInstantiate'',
     ''TypeArgumentsOrDiamond'', ''ArrayCreationExpression'',
     ''ArrayCreationExpressionWithoutInitializer'', ''ArrayCreationExpressionWithInitializer'',
     ''DimExprs'', ''DimExpr'', ''ArrayAccess'', ''FieldAccess'', ''MethodInvocation'',
     ''ArgumentList'', ''MethodReference'', ''Expression'', ''LambdaExpression'',
     ''LambdaParameters'', ''LambdaParameterList'', ''NormalLambdaParameter'',
     ''LambdaParameterType'', ''ConciseLambdaParameter'', ''LambdaBody'',
     ''AssignmentExpression'', ''Assignment'', ''LeftHandSide'', ''AssignmentOperator'',
     ''ConditionalExpression'', ''ConditionalOrExpression'', ''ConditionalAndExpression'',
     ''InclusiveOrExpression'', ''ExclusiveOrExpression'', ''AndExpression'',
     ''EqualityExpression'', ''RelationalExpression'', ''InstanceofExpression'',
     ''ShiftExpression'', ''AdditiveExpression'', ''MultiplicativeExpression'',
     ''UnaryExpression'', ''PreIncrementExpression'', ''PreDecrementExpression'',
     ''UnaryExpressionNotPlusMinus'', ''PostfixExpression'', ''PostIncrementExpression'',
     ''PostDecrementExpression'', ''CastExpression'', ''SwitchExpression''
    ]"


section \<open>javaGrammar.ts: lookup with a placeholder\<close>



section \<open>The diagram library, from its description\<close>

text \<open>
  Modelled from the spec: the node kinds of \<^verbatim>\<open>@prantlf/railroad-diagrams\<close>, which is an
  external package. A constructor builds the node of its kind from arguments of the expected
  form; \<open>Choice\<close> rejects a default index that is out of range; every other argument list is
  rejected with a \<open>TypeError\<close>. The package exports its constructors either as plain functions
  or as classes; calling a class without \<^verbatim>\<open>new\<close> throws the \<open>TypeError\<close> quoted in the
  comments of both grammar files. What markup a node produces is left as a parameter.
\<close>

datatype diagram_node =
    TerminalNode string
  | NonTerminalNode string
  | SequenceNode "diagram_node list"
  | ChoiceNode nat "diagram_node list"
  | OptionalNode diagram_node
  | OneOrMoreNode diagram_node
  | ZeroOrMoreNode diagram_node
  | StackNode "diagram_node list"
  | CommentNode string
  | DiagramNode diagram_node

fun objects :: "'n js_val list \<Rightarrow> 'n list option" where
  "objects [] = Some []"
| "objects (Obj n # rest) = map_option ((#) n) (objects rest)"
| "objects (v # rest) = None"

definition bad_arguments :: "string \<Rightarrow> 'a outcome" where
  "bad_arguments name = Inl (ErrorObject TypeError (name @ '': unsupported arguments''))"

fun build_Terminal :: "diagram_node js_val list \<Rightarrow> diagram_node js_val outcome" where
  "build_Terminal [Str text] = Inr (Obj (TerminalNode text))"
| "build_Terminal args = bad_arguments ''Terminal''"

fun build_NonTerminal :: "diagram_node js_val list \<Rightarrow> diagram_node js_val outcome" where
  "build_NonTerminal [Str text] = Inr (Obj (NonTerminalNode text))"
| "build_NonTerminal args = bad_arguments ''NonTerminal''"

fun build_Comment :: "diagram_node js_val list \<Rightarrow> diagram_node js_val outcome" where
  "build_Comment [Str text] = Inr (Obj (CommentNode text))"
| "build_Comment args = bad_arguments ''Comment''"

definition build_Sequence :: "diagram_node js_val list \<Rightarrow> diagram_node js_val outcome" where
  "build_Sequence args =
     (case objects args of
        Some items \<Rightarrow> Inr (Obj (SequenceNode items))
      | None \<Rightarrow> bad_arguments ''Sequence'')"

definition build_Stack :: "diagram_node js_val list \<Rightarrow> diagram_node js_val outcome" where
  "build_Stack args =
     (case objects args of
        Some items \<Rightarrow> Inr (Obj (StackNode items))
      | None \<Rightarrow> bad_arguments ''Stack'')"

fun build_Choice :: "diagram_node js_val list \<Rightarrow> diagram_node js_val outcome" where
  "build_Choice (Num i # args) =
     (case objects args of
        Some items \<Rightarrow>
          if 0 \<le> i \<and> nat i < length items then Inr (Obj (ChoiceNode (nat i) items))
          else Inl (ErrorObject RangeError ''Choice: the default index must select one of the items'')
      | None \<Rightarrow> bad_arguments ''Choice'')"
| "build_Choice args = bad_arguments ''Choice''"

fun build_Optional :: "diagram_node js_val list \<Rightarrow> diagram_node js_val outcome" where
  "build_Optional [Obj item] = Inr (Obj (OptionalNode item))"
| "build_Optional args = bad_arguments ''Optional''"

fun build_OneOrMore :: "diagram_node js_val list \<Rightarrow> diagram_node js_val outcome" where
  "build_OneOrMore [Obj item] = Inr (Obj (OneOrMoreNode item))"
| "build_OneOrMore args = bad_arguments ''OneOrMore''"

fun build_ZeroOrMore :: "diagram_node js_val list \<Rightarrow> diagram_node js_val outcome" where
  "build_ZeroOrMore [Obj item] = Inr (Obj (ZeroOrMoreNode item))"
| "build_ZeroOrMore args = bad_arguments ''ZeroOrMore''"

fun build_Diagram :: "diagram_node js_val list \<Rightarrow> diagram_node js_val outcome" where
  "build_Diagram [Obj root] = Inr (Obj (DiagramNode root))"
| "build_Diagram args = bad_arguments ''Diagram''"

datatype export_shape = FactoryFunctions | ClassConstructors

definition class_call_error :: "string \<Rightarrow> js_thrown" where
  "class_call_error name =
     ErrorObject TypeError
       (''Class constructor '' @ name @ '' cannot be invoked '' @ without_new)"

fun exported ::
  "export_shape \<Rightarrow> string \<Rightarrow> (diagram_node js_val list \<Rightarrow> diagram_node js_val outcome) \<Rightarrow>
   diagram_node js_function" where
  "exported FactoryFunctions name build =
     \<lparr>source_text = ''function '' @ name @ ''(...items) { }'', call = build, construct = build\<rparr>"
| "exported ClassConstructors name build =
     \<lparr>source_text = ''class '' @ name @ '' { }'',
      call = (\<lambda>args. Inl (class_call_error name)),
      construct = build\<rparr>"

declare exported.simps [simp del]

definition railroad_diagrams ::
  "export_shape \<Rightarrow> (diagram_node \<Rightarrow> svg_result rendering) \<Rightarrow> diagram_node railroad" where
  "railroad_diagrams shape markup =
     \<lparr>RR_Diagram = exported shape ''Diagram'' build_Diagram,
      RR_Sequence = exported shape ''Sequence'' build_Sequence,
      RR_Choice = exported shape ''Choice'' build_Choice,
      RR_Optional = exported shape ''Optional'' build_Optional,
      RR_OneOrMore = exported shape ''OneOrMore'' build_OneOrMore,
      RR_ZeroOrMore = exported shape ''ZeroOrMore'' build_ZeroOrMore,
      RR_Terminal = exported shape ''Terminal'' build_Terminal,
      RR_NonTerminal = exported shape ''NonTerminal'' build_NonTerminal,
      RR_Stack = exported shape ''Stack'' build_Stack,
      RR_Comment = exported shape ''Comment'' build_Comment,
      toSVG_of = (\<lambda>n. Some (markup n)),
      toString_of = (\<lambda>n. Some (Inr ''[object Object]''))\<rparr>"



section \<open>app/App.tsx: the section filter\<close>

text \<open>
  \<^verbatim>\<open>toLowerCase\<close> on code units below 256: the ASCII capitals and the Latin-1 capitals
  (U+00C0 to U+00DE without the multiplication sign) move up by 32.
\<close>

definition lower_char :: "char \<Rightarrow> char" where
  "lower_char c =
     (let n = (of_char c :: nat) in
      if (65 \<le> n \<and> n \<le> 90) \<or> (192 \<le> n \<and> n \<le> 222 \<and> n \<noteq> 215) then char_of (n + 32) else c)"

definition toLowerCase :: "string \<Rightarrow> string" where
  "toLowerCase s = map lower_char s"

definition trim :: "string \<Rightarrow> string" where
  "trim s = rev (dropWhile is_space (rev (dropWhile is_space s)))"

text \<open>
  \<^verbatim>\<open>const q = query.trim().toLowerCase(); if (!q) return names;
  return names.filter((n) => n.toLowerCase().includes(q));\<close>
\<close>

definition filterNames :: "string \<Rightarrow> string list \<Rightarrow> string list" where
  "filterNames query names =
     (let q = toLowerCase (trim query) in
      if q = [] then names
      else filter (\<lambda>n. js_includes (toLowerCase n) q) names)"

section \<open>scripts/check-grammar-coverage.mjs\<close>

text \<open>
  A \<^verbatim>\<open>Set\<close> keeps its members in insertion order and ignores a member that is already
  present.
\<close>

definition Set_add :: "'a \<Rightarrow> 'a list \<Rightarrow> 'a list" where
  "Set_add x members = (if x \<in> set members then members else members @ [x])"

definition is_quote :: "char \<Rightarrow> bool" where
  "is_quote c = (c = dquote \<or> c = apostrophe)"

definition is_line_terminator :: "char \<Rightarrow> bool" where
  "is_line_terminator c = (c = CHR 0x0A \<or> c = CHR 0x0D)"

text \<open>
  \<^verbatim>\<open>["']([^"']+)["']\<close> at the head of the text: the captured name and the text after the
  match. The greedy \<^verbatim>\<open>[^"']+\<close> takes every character up to the next quote; a shorter
  run would be followed by a non-quote, so backtracking finds nothing else.
\<close>

definition quoted_name :: "string \<Rightarrow> (string \<times> string) option" where
  "quoted_name s =
     (case s of
        [] \<Rightarrow> None
      | q # r \<Rightarrow>
          if is_quote q then
            (let name = takeWhile (\<lambda>c. \<not> is_quote c) r;
                 rest = dropWhile (\<lambda>c. \<not> is_quote c) r
             in if name = [] \<or> rest = [] then None else Some (name, tl rest))
          else None)"

text \<open>\<^verbatim>\<open>/rules\.set\(\s*["']([^"']+)["']/\<close> at the head of the text.\<close>

definition match_rules_set :: "string \<Rightarrow> (string \<times> string) option" where
  "match_rules_set s =
     (if take 10 s = ''rules.set('' then quoted_name (dropWhile is_space (drop 10 s)) else None)"

text \<open>\<^verbatim>\<open>\s*["']([^"']+)["']\s*:\<close> at the head of the text (the part after \<^verbatim>\<open>^\<close>).\<close>

definition match_ebnf_key :: "string \<Rightarrow> (string \<times> string) option" where
  "match_ebnf_key s =
     (case quoted_name (dropWhile is_space s) of
        None \<Rightarrow> None
      | Some (name, r) \<Rightarrow>
          (case dropWhile is_space r of
             [] \<Rightarrow> None
           | c # rest \<Rightarrow> if c = CHR '':'' then Some (name, rest) else None))"

lemma quoted_name_shorter: "quoted_name s = Some (name, rest) \<Longrightarrow> length rest < length s"
proof -
  assume a: "quoted_name s = Some (name, rest)"
  then obtain q r where s: "s = q # r" by (cases s) (auto simp: quoted_name_def)
  from a s have "rest = tl (dropWhile (\<lambda>c. \<not> is_quote c) r)"
    by (auto simp: quoted_name_def Let_def split: if_splits)
  moreover have "length (tl (dropWhile (\<lambda>c. \<not> is_quote c) r)) \<le> length r"
    using length_dropWhile_le [of "\<lambda>c. \<not> is_quote c" r] by simp
  ultimately show ?thesis using s by simp
qed

lemma match_rules_set_shorter:
  "match_rules_set s = Some (name, rest) \<Longrightarrow> length rest < length s"
proof -
  assume a: "match_rules_set s = Some (name, rest)"
  then have "quoted_name (dropWhile is_space (drop 10 s)) = Some (name, rest)"
    by (simp add: match_rules_set_def split: if_splits)
  then have "length rest < length (dropWhile is_space (drop 10 s))"
    by (rule quoted_name_shorter)
  also have "\<dots> \<le> length (drop 10 s)" by (rule length_dropWhile_le)
  also have "\<dots> \<le> length s" by simp
  finally show ?thesis .
qed

lemma match_ebnf_key_shorter:
  "match_ebnf_key s = Some (name, rest) \<Longrightarrow> length rest < length s"
proof -
  assume a: "match_ebnf_key s = Some (name, rest)"
  then obtain r where q: "quoted_name (dropWhile is_space s) = Some (name, r)"
    and d: "dropWhile is_space r = CHR '':'' # rest"
    by (auto simp: match_ebnf_key_def split: option.splits list.splits if_splits)
  have "length rest < length (dropWhile is_space r)" using d by simp
  also have "\<dots> \<le> length r" by (rule length_dropWhile_le)
  also have "\<dots> < length (dropWhile is_space s)" using q by (rule quoted_name_shorter)
  also have "\<dots> \<le> length s" by (rule length_dropWhile_le)
  finally show ?thesis .
qed

text \<open>
  The loop \<^verbatim>\<open>while ((match = rulePattern.exec(content)) !== null) rules.add(match[1])\<close>:
  a global pattern resumes after the previous match and finds the leftmost next one.
\<close>

function scan_rules_set :: "string \<Rightarrow> string list \<Rightarrow> string list" where
  "scan_rules_set [] found = found"
| "scan_rules_set (c # cs) found =
     (case match_rules_set (c # cs) of
        Some (name, rest) \<Rightarrow> scan_rules_set rest (Set_add name found)
      | None \<Rightarrow> scan_rules_set cs found)"
  by pat_completeness auto
termination
  by (relation "measure (\<lambda>(s, found). length s)") (auto dest: match_rules_set_shorter)

definition extractDiagramRules :: "string \<Rightarrow> string list" where
  "extractDiagramRules content = scan_rules_set content []"

text \<open>
  With the flags \<^verbatim>\<open>gm\<close>, \<^verbatim>\<open>^\<close> holds at the start of the text and after a line
  terminator; the flag \<open>line_start\<close> says whether it holds at the current position.
\<close>

function scan_ebnf_keys :: "bool \<Rightarrow> string \<Rightarrow> string list \<Rightarrow> string list" where
  "scan_ebnf_keys line_start [] found = found"
| "scan_ebnf_keys line_start (c # cs) found =
     (case (if line_start then match_ebnf_key (c # cs) else None) of
        Some (name, rest) \<Rightarrow> scan_ebnf_keys False rest (Set_add name found)
      | None \<Rightarrow> scan_ebnf_keys (is_line_terminator c) cs found)"
  by pat_completeness auto
termination
  by (relation "measure (\<lambda>(b, s, found). length s)")
     (auto dest: match_ebnf_key_shorter split: if_splits)

definition extractEbnfRules :: "string \<Rightarrow> string list" where
  "extractEbnfRules content = scan_ebnf_keys True content []"

text \<open>
  \<^verbatim>\<open>readFileSync\<close> either returns the content or throws; \<^verbatim>\<open>main\<close> prints lines
  and ends the process with an exit code. The printed lines are kept by kind (the texts carry
  emoji), with the data that is interpolated into them.
\<close>

datatype console_line =
    Checking
  | FoundDiagramRules nat
  | FoundEbnfDefinitions nat
  | FailedToReadGrammar string
  | FailedToReadEbnf string
  | Blank
  | RulesWithDiagramNoEbnf
  | RulesWithEbnfNoDiagram
  | Item string
  | CheckFailed
  | PleaseEnsure
  | CheckPassed
  | AllRulesMatch

text \<open>\<^verbatim>\<open>[...diagramRules].filter(r => !ebnfRules.has(r)).sort()\<close> and its mirror image.\<close>

definition missingEbnf :: "string list \<Rightarrow> string list \<Rightarrow> string list" where
  "missingEbnf diagramRules ebnfRules = sort (filter (\<lambda>r. r \<notin> set ebnfRules) diagramRules)"

definition missingDiagram :: "string list \<Rightarrow> string list \<Rightarrow> string list" where
  "missingDiagram diagramRules ebnfRules = sort (filter (\<lambda>r. r \<notin> set diagramRules) ebnfRules)"

text \<open>The part of \<^verbatim>\<open>main\<close> after both files have been read.\<close>

definition report :: "string list \<Rightarrow> string list \<Rightarrow> console_line list \<times> nat" where
  "report diagramRules ebnfRules =
     (let noEbnf = missingEbnf diagramRules ebnfRules;
          noDiagram = missingDiagram diagramRules ebnfRules;
          out1 = (if length noEbnf > 0
                  then [RulesWithDiagramNoEbnf] @ map Item noEbnf @ [Blank] else []);
          out2 = (if length noDiagram > 0
                  then [RulesWithEbnfNoDiagram] @ map Item noDiagram @ [Blank] else []);
          hasErrors = (length noEbnf > 0 \<or> length noDiagram > 0)
      in if hasErrors then (out1 @ out2 @ [CheckFailed, PleaseEnsure], 1)
         else (out1 @ out2 @ [CheckPassed, AllRulesMatch], 0))"

definition main :: "string outcome \<Rightarrow> string outcome \<Rightarrow> console_line list \<times> nat" where
  "main grammarFile ebnfFile =
     (case grammarFile of
        Inl err \<Rightarrow> ([Checking, FailedToReadGrammar (message_or_string err)], 1)
      | Inr grammar \<Rightarrow>
          (let diagramRules = extractDiagramRules grammar;
               out = [Checking, FoundDiagramRules (length diagramRules)]
           in case ebnfFile of
                Inl err \<Rightarrow> (out @ [FailedToReadEbnf (message_or_string err)], 1)
              | Inr ebnf \<Rightarrow>
                  (let ebnfRules = extractEbnfRules ebnf;
                       (lines, code) = report diagramRules ebnfRules
                   in (out @ [FoundEbnfDefinitions (length ebnfRules), Blank] @ lines, code))))"

section \<open>The files that the coverage check scans\<close>





































section \<open>ebnfDefinitions.ts: the EBNF store\<close>

text \<open>
  The properties of the object literal \<^verbatim>\<open>EBNF_DEFINITIONS\<close> in the order in which they
  are written, under the comment headings of the file. Every value is a template literal
  without substitutions and without escapes, so it is its own text.
\<close>

text \<open>Section 3 Lexical Structure\<close>

definition ebnf_lexical :: "(string \<times> string) list" where
  \<open>ebnf_lexical =
    [
     (''Identifier'',
        ''Identifier:'' @ [CHR 0x0A] @
        ''    IdentifierChars but not a ReservedKeyword or BooleanLiteral or NullLiteral''),
     (''IdentifierChars'',
        ''IdentifierChars:'' @ [CHR 0x0A] @
        ''    JavaLetter {JavaLetterOrDigit}''),
     (''JavaLetter'',
        ''JavaLetter:'' @ [CHR 0x0A] @
        ''    any Unicode character that is a "Java letter"''),
     (''JavaLetterOrDigit'',
        ''JavaLetterOrDigit:'' @ [CHR 0x0A] @
        ''    any Unicode character that is a "Java letter-or-digit"''),
     (''TypeIdentifier'',
        ''TypeIdentifier:'' @ [CHR 0x0A] @
        ''    Identifier but not permits, record, sealed, var, or yield''),
     (''UnqualifiedMethodIdentifier'',
        ''UnqualifiedMethodIdentifier:'' @ [CHR 0x0A] @
        ''    Identifier but not yield''),
     (''Literal'',
        ''Literal:'' @ [CHR 0x0A] @
        ''    IntegerLiteral'' @ [CHR 0x0A] @
        ''    FloatingPointLiteral'' @ [CHR 0x0A] @
        ''    BooleanLiteral'' @ [CHR 0x0A] @
        ''    CharacterLiteral'' @ [CHR 0x0A] @
        ''    StringLiteral'' @ [CHR 0x0A] @
        ''    TextBlock'' @ [CHR 0x0A] @
        ''    NullLiteral'')
    ]\<close>

text \<open>Section 4 Types, Values, and Variables\<close>

definition ebnf_types :: "(string \<times> string) list" where
  \<open>ebnf_types =
    [
     (''Type'',
        ''Type:'' @ [CHR 0x0A] @
        ''    PrimitiveType'' @ [CHR 0x0A] @
        ''    ReferenceType''),
     (''PrimitiveType'',
        ''PrimitiveType:'' @ [CHR 0x0A] @
        ''    {Annotation} NumericType'' @ [CHR 0x0A] @
        ''    {Annotation} boolean''),
     (''NumericType'',
        ''NumericType:'' @ [CHR 0x0A] @
        ''    IntegralType'' @ [CHR 0x0A] @
        ''    FloatingPointType''),
     (''IntegralType'',
        ''IntegralType:'' @ [CHR 0x0A] @
        ''    (one of) byte short int long char''),
     (''FloatingPointType'',
        ''FloatingPointType:'' @ [CHR 0x0A] @
        ''    (one of) float double''),
     (''ReferenceType'',
        ''ReferenceType:'' @ [CHR 0x0A] @
        ''    ClassOrInterfaceType'' @ [CHR 0x0A] @
        ''    TypeVariable'' @ [CHR 0x0A] @
        ''    ArrayType''),
     (''ClassOrInterfaceType'',
        ''ClassOrInterfaceType:'' @ [CHR 0x0A] @
        ''    ClassType'' @ [CHR 0x0A] @
        ''    InterfaceType''),
     (''ClassType'',
        ''ClassType:'' @ [CHR 0x0A] @
        ''    {Annotation} TypeIdentifier [TypeArguments]'' @ [CHR 0x0A] @
        ''    PackageName . {Annotation} TypeIdentifier [TypeArguments]'' @ [CHR 0x0A] @
        ''    ClassOrInterfaceType . {Annotation} TypeIdentifier [TypeArguments]''),
     (''InterfaceType'',
        ''InterfaceType:'' @ [CHR 0x0A] @
        ''    ClassType''),
     (''TypeVariable'',
        ''TypeVariable:'' @ [CHR 0x0A] @
        ''    {Annotation} TypeIdentifier''),
     (''ArrayType'',
        ''ArrayType:'' @ [CHR 0x0A] @
        ''    PrimitiveType Dims'' @ [CHR 0x0A] @
        ''    ClassOrInterfaceType Dims'' @ [CHR 0x0A] @
        ''    TypeVariable Dims''),
     (''Dims'',
        ''Dims:'' @ [CHR 0x0A] @
        ''    {Annotation} [ ] {{Annotation} [ ]}''),
     (''TypeParameter'',
        ''TypeParameter:'' @ [CHR 0x0A] @
        ''    {TypeParameterModifier} TypeIdentifier [TypeBound]''),
     (''TypeParameterModifier'',
        ''TypeParameterModifier:'' @ [CHR 0x0A] @
        ''    Annotation''),
     (''TypeBound'',
        ''TypeBound:'' @ [CHR 0x0A] @
        ''    extends TypeVariable'' @ [CHR 0x0A] @
        ''    extends ClassOrInterfaceType {AdditionalBound}''),
     (''AdditionalBound'',
        ''AdditionalBound:'' @ [CHR 0x0A] @
        ''    & InterfaceType''),
     (''TypeArguments'',
        ''TypeArguments:'' @ [CHR 0x0A] @
        ''    < TypeArgumentList >''),
     (''TypeArgumentList'',
        ''TypeArgumentList:'' @ [CHR 0x0A] @
        ''    TypeArgument {, TypeArgument}''),
     (''TypeArgument'',
        ''TypeArgument:'' @ [CHR 0x0A] @
        ''    ReferenceType'' @ [CHR 0x0A] @
        ''    Wildcard''),
     (''Wildcard'',
        ''Wildcard:'' @ [CHR 0x0A] @
        ''    {Annotation} ? [WildcardBounds]''),
     (''WildcardBounds'',
        ''WildcardBounds:'' @ [CHR 0x0A] @
        ''    extends ReferenceType'' @ [CHR 0x0A] @
        ''    super ReferenceType'')
    ]\<close>

text \<open>Section 6 Names\<close>

definition ebnf_names :: "(string \<times> string) list" where
  \<open>ebnf_names =
    [
     (''ModuleName'',
        ''ModuleName:'' @ [CHR 0x0A] @
        ''    Identifier'' @ [CHR 0x0A] @
        ''    ModuleName . Identifier''),
     (''PackageName'',
        ''PackageName:'' @ [CHR 0x0A] @
        ''    Identifier'' @ [CHR 0x0A] @
        ''    PackageName . Identifier''),
     (''TypeName'',
        ''TypeName:'' @ [CHR 0x0A] @
        ''    TypeIdentifier'' @ [CHR 0x0A] @
        ''    PackageOrTypeName . TypeIdentifier''),
     (''ExpressionName'',
        ''ExpressionName:'' @ [CHR 0x0A] @
        ''    Identifier'' @ [CHR 0x0A] @
        ''    AmbiguousName . Identifier''),
     (''MethodName'',
        ''MethodName:'' @ [CHR 0x0A] @
        ''    UnqualifiedMethodIdentifier''),
     (''PackageOrTypeName'',
        ''PackageOrTypeName:'' @ [CHR 0x0A] @
        ''    Identifier'' @ [CHR 0x0A] @
        ''    PackageOrTypeName . Identifier''),
     (''AmbiguousName'',
        ''AmbiguousName:'' @ [CHR 0x0A] @
        ''    Identifier'' @ [CHR 0x0A] @
        ''    AmbiguousName . Identifier'')
    ]\<close>

text \<open>Section 7 Packages and Modules\<close>

definition ebnf_packages :: "(string \<times> string) list" where
  \<open>ebnf_packages =
    [
     (''CompilationUnit'',
        ''CompilationUnit:'' @ [CHR 0x0A] @
        ''    OrdinaryCompilationUnit'' @ [CHR 0x0A] @
        ''    CompactCompilationUnit'' @ [CHR 0x0A] @
        ''    ModularCompilationUnit''),
     (''OrdinaryCompilationUnit'',
        ''OrdinaryCompilationUnit:'' @ [CHR 0x0A] @
        ''    [PackageDeclaration] {ImportDeclaration} {TopLevelClassOrInterfaceDeclaration}''),
     (''ModularCompilationUnit'',
        ''ModularCompilationUnit:'' @ [CHR 0x0A] @
        ''    {ImportDeclaration} ModuleDeclaration''),
     (''PackageDeclaration'',
        ''PackageDeclaration:'' @ [CHR 0x0A] @
        ''    {PackageModifier} package Identifier {. Identifier} ;''),
     (''PackageModifier'',
        ''PackageModifier:'' @ [CHR 0x0A] @
        ''    Annotation''),
     (''ImportDeclaration'',
        ''ImportDeclaration:'' @ [CHR 0x0A] @
        ''    SingleTypeImportDeclaration'' @ [CHR 0x0A] @
        ''    TypeImportOnDemandDeclaration'' @ [CHR 0x0A] @
        ''    SingleStaticImportDeclaration'' @ [CHR 0x0A] @
        ''    StaticImportOnDemandDeclaration'' @ [CHR 0x0A] @
        ''    SingleModuleImportDeclaration''),
     (''SingleTypeImportDeclaration'',
        ''SingleTypeImportDeclaration:'' @ [CHR 0x0A] @
        ''    import TypeName ;''),
     (''TypeImportOnDemandDeclaration'',
        ''TypeImportOnDemandDeclaration:'' @ [CHR 0x0A] @
        ''    import PackageOrTypeName . * ;''),
     (''SingleStaticImportDeclaration'',
        ''SingleStaticImportDeclaration:'' @ [CHR 0x0A] @
        ''    import static TypeName . Identifier ;''),
     (''StaticImportOnDemandDeclaration'',
        ''StaticImportOnDemandDeclaration:'' @ [CHR 0x0A] @
        ''    import static TypeName . * ;''),
     (''SingleModuleImportDeclaration'',
        ''SingleModuleImportDeclaration:'' @ [CHR 0x0A] @
        ''    import module ModuleName ;''),
     (''TopLevelClassOrInterfaceDeclaration'',
        ''TopLevelClassOrInterfaceDeclaration:'' @ [CHR 0x0A] @
        ''    ClassDeclaration'' @ [CHR 0x0A] @
        ''    InterfaceDeclaration'' @ [CHR 0x0A] @
        ''    ;''),
     (''ModuleDeclaration'',
        ''ModuleDeclaration:'' @ [CHR 0x0A] @
        ''    {Annotation} [open] module Identifier {. Identifier} { {ModuleDirective} }''),
     (''ModuleDirective'',
        ''ModuleDirective:'' @ [CHR 0x0A] @
        ''    requires {RequiresModifier} ModuleName ;'' @ [CHR 0x0A] @
        ''    exports PackageName [to ModuleName {, ModuleName}] ;'' @ [CHR 0x0A] @
        ''    opens PackageName [to ModuleName {, ModuleName}] ;'' @ [CHR 0x0A] @
        ''    uses TypeName ;'' @ [CHR 0x0A] @
        ''    provides TypeName with TypeName {, TypeName} ;''),
     (''RequiresModifier'',
        ''RequiresModifier:'' @ [CHR 0x0A] @
        ''    (one of) transitive static'')
    ]\<close>

text \<open>Section 8 Classes\<close>

definition ebnf_classes :: "(string \<times> string) list" where
  \<open>ebnf_classes =
    [
     (''ClassDeclaration'',
        ''ClassDeclaration:'' @ [CHR 0x0A] @
        ''    NormalClassDeclaration'' @ [CHR 0x0A] @
        ''    EnumDeclaration'' @ [CHR 0x0A] @
        ''    RecordDeclaration''),
     (''NormalClassDeclaration'',
        ''NormalClassDeclaration:'' @ [CHR 0x0A] @
        ''    {ClassModifier} class TypeIdentifier [TypeParameters] [ClassExtends] [ClassImplements] [ClassPermits] ClassBody''),
     (''ClassModifier'',
        ''ClassModifier:'' @ [CHR 0x0A] @
        ''    (one of) Annotation public protected private'' @ [CHR 0x0A] @
        ''    abstract static final sealed non-sealed strictfp''),
     (''TypeParameters'',
        ''TypeParameters:'' @ [CHR 0x0A] @
        ''    < TypeParameterList >''),
     (''TypeParameterList'',
        ''TypeParameterList:'' @ [CHR 0x0A] @
        ''    TypeParameter {, TypeParameter}''),
     (''ClassExtends'',
        ''ClassExtends:'' @ [CHR 0x0A] @
        ''    extends ClassType''),
     (''ClassImplements'',
        ''ClassImplements:'' @ [CHR 0x0A] @
        ''    implements InterfaceTypeList''),
     (''InterfaceTypeList'',
        ''InterfaceTypeList:'' @ [CHR 0x0A] @
        ''    InterfaceType {, InterfaceType}''),
     (''ClassPermits'',
        ''ClassPermits:'' @ [CHR 0x0A] @
        ''    permits TypeName {, TypeName}''),
     (''ClassBody'',
        ''ClassBody:'' @ [CHR 0x0A] @
        ''    { {ClassBodyDeclaration} }''),
     (''ClassBodyDeclaration'',
        ''ClassBodyDeclaration:'' @ [CHR 0x0A] @
        ''    ClassMemberDeclaration'' @ [CHR 0x0A] @
        ''    InstanceInitializer'' @ [CHR 0x0A] @
        ''    StaticInitializer'' @ [CHR 0x0A] @
        ''    ConstructorDeclaration''),
     (''ClassMemberDeclaration'',
        ''ClassMemberDeclaration:'' @ [CHR 0x0A] @
        ''    FieldDeclaration'' @ [CHR 0x0A] @
        ''    MethodDeclaration'' @ [CHR 0x0A] @
        ''    ClassDeclaration'' @ [CHR 0x0A] @
        ''    InterfaceDeclaration'' @ [CHR 0x0A] @
        ''    ;''),
     (''FieldDeclaration'',
        ''FieldDeclaration:'' @ [CHR 0x0A] @
        ''    {FieldModifier} UnannType VariableDeclaratorList ;''),
     (''FieldModifier'',
        ''FieldModifier:'' @ [CHR 0x0A] @
        ''    (one of) Annotation public protected private'' @ [CHR 0x0A] @
        ''    static final transient volatile''),
     (''VariableDeclaratorList'',
        ''VariableDeclaratorList:'' @ [CHR 0x0A] @
        ''    VariableDeclarator {, VariableDeclarator}''),
     (''VariableDeclarator'',
        ''VariableDeclarator:'' @ [CHR 0x0A] @
        ''    VariableDeclaratorId [= VariableInitializer]''),
     (''VariableDeclaratorId'',
        ''VariableDeclaratorId:'' @ [CHR 0x0A] @
        ''    Identifier [Dims]'' @ [CHR 0x0A] @
        ''    _''),
     (''VariableInitializer'',
        ''VariableInitializer:'' @ [CHR 0x0A] @
        ''    Expression'' @ [CHR 0x0A] @
        ''    ArrayInitializer''),
     (''UnannType'',
        ''UnannType:'' @ [CHR 0x0A] @
        ''    UnannPrimitiveType'' @ [CHR 0x0A] @
        ''    UnannReferenceType''),
     (''UnannPrimitiveType'',
        ''UnannPrimitiveType:'' @ [CHR 0x0A] @
        ''    NumericType'' @ [CHR 0x0A] @
        ''    boolean''),
     (''UnannReferenceType'',
        ''UnannReferenceType:'' @ [CHR 0x0A] @
        ''    UnannClassOrInterfaceType'' @ [CHR 0x0A] @
        ''    UnannTypeVariable'' @ [CHR 0x0A] @
        ''    UnannArrayType''),
     (''UnannClassOrInterfaceType'',
        ''UnannClassOrInterfaceType:'' @ [CHR 0x0A] @
        ''    UnannClassType'' @ [CHR 0x0A] @
        ''    UnannInterfaceType''),
     (''UnannClassType'',
        ''UnannClassType:'' @ [CHR 0x0A] @
        ''    TypeIdentifier [TypeArguments]'' @ [CHR 0x0A] @
        ''    PackageName . {Annotation} TypeIdentifier [TypeArguments]'' @ [CHR 0x0A] @
        ''    UnannClassOrInterfaceType . {Annotation} TypeIdentifier [TypeArguments]''),
     (''UnannInterfaceType'',
        ''UnannInterfaceType:'' @ [CHR 0x0A] @
        ''    UnannClassType''),
     (''UnannTypeVariable'',
        ''UnannTypeVariable:'' @ [CHR 0x0A] @
        ''    TypeIdentifier''),
     (''UnannArrayType'',
        ''UnannArrayType:'' @ [CHR 0x0A] @
        ''    UnannPrimitiveType Dims'' @ [CHR 0x0A] @
        ''    UnannClassOrInterfaceType Dims'' @ [CHR 0x0A] @
        ''    UnannTypeVariable Dims''),
     (''MethodDeclaration'',
        ''MethodDeclaration:'' @ [CHR 0x0A] @
        ''    {MethodModifier} MethodHeader MethodBody''),
     (''MethodModifier'',
        ''MethodModifier:'' @ [CHR 0x0A] @
        ''    (one of) Annotation public protected private'' @ [CHR 0x0A] @
        ''    abstract static final synchronized native strictfp''),
     (''MethodHeader'',
        ''MethodHeader:'' @ [CHR 0x0A] @
        ''    Result MethodDeclarator [Throws]'' @ [CHR 0x0A] @
        ''    TypeParameters {Annotation} Result MethodDeclarator [Throws]''),
     (''Result'',
        ''Result:'' @ [CHR 0x0A] @
        ''    UnannType'' @ [CHR 0x0A] @
        ''    void''),
     (''MethodDeclarator'',
        ''MethodDeclarator:'' @ [CHR 0x0A] @
        ''    Identifier ( [ReceiverParameter ,] [FormalParameterList] ) [Dims]''),
     (''ReceiverParameter'',
        ''ReceiverParameter:'' @ [CHR 0x0A] @
        ''    {Annotation} UnannType [Identifier .] this''),
     (''FormalParameterList'',
        ''FormalParameterList:'' @ [CHR 0x0A] @
        ''    FormalParameter {, FormalParameter}''),
     (''FormalParameter'',
        ''FormalParameter:'' @ [CHR 0x0A] @
        ''    {VariableModifier} UnannType VariableDeclaratorId'' @ [CHR 0x0A] @
        ''    VariableArityParameter''),
     (''VariableArityParameter'',
        ''VariableArityParameter:'' @ [CHR 0x0A] @
        ''    {VariableModifier} UnannType {Annotation} ... Identifier''),
     (''VariableModifier'',
        ''VariableModifier:'' @ [CHR 0x0A] @
        ''    Annotation'' @ [CHR 0x0A] @
        ''    final''),
     (''Throws'',
        ''Throws:'' @ [CHR 0x0A] @
        ''    throws ExceptionTypeList''),
     (''ExceptionTypeList'',
        ''ExceptionTypeList:'' @ [CHR 0x0A] @
        ''    ExceptionType {, ExceptionType}''),
     (''ExceptionType'',
        ''ExceptionType:'' @ [CHR 0x0A] @
        ''    ClassType'' @ [CHR 0x0A] @
        ''    TypeVariable''),
     (''MethodBody'',
        ''MethodBody:'' @ [CHR 0x0A] @
        ''    Block'' @ [CHR 0x0A] @
        ''    ;''),
     (''InstanceInitializer'',
        ''InstanceInitializer:'' @ [CHR 0x0A] @
        ''    Block''),
     (''StaticInitializer'',
        ''StaticInitializer:'' @ [CHR 0x0A] @
        ''    static Block''),
     (''ConstructorDeclaration'',
        ''ConstructorDeclaration:'' @ [CHR 0x0A] @
        ''    {ConstructorModifier} ConstructorDeclarator [Throws] ConstructorBody''),
     (''ConstructorModifier'',
        ''ConstructorModifier:'' @ [CHR 0x0A] @
        ''    (one of) Annotation public protected private''),
     (''ConstructorDeclarator'',
        ''ConstructorDeclarator:'' @ [CHR 0x0A] @
        ''    [TypeParameters] SimpleTypeName ( [ReceiverParameter ,] [FormalParameterList] )''),
     (''SimpleTypeName'',
        ''SimpleTypeName:'' @ [CHR 0x0A] @
        ''    TypeIdentifier''),
     (''ConstructorBody'',
        ''ConstructorBody:'' @ [CHR 0x0A] @
        ''    { [BlockStatements] ConstructorInvocation [BlockStatements] }'' @ [CHR 0x0A] @
        ''    { [BlockStatements] }''),
     (''ConstructorInvocation'',
        ''ConstructorInvocation:'' @ [CHR 0x0A] @
        ''    [TypeArguments] this ( [ArgumentList] ) ;'' @ [CHR 0x0A] @
        ''    [TypeArguments] super ( [ArgumentList] ) ;'' @ [CHR 0x0A] @
        ''    ExpressionName . [TypeArguments] super ( [ArgumentList] ) ;'' @ [CHR 0x0A] @
        ''    Primary . [TypeArguments] super ( [ArgumentList] ) ;''),
     (''EnumDeclaration'',
        ''EnumDeclaration:'' @ [CHR 0x0A] @
        ''    {ClassModifier} enum TypeIdentifier [ClassImplements] EnumBody''),
     (''EnumBody'',
        ''EnumBody:'' @ [CHR 0x0A] @
        ''    { [EnumConstantList] [,] [EnumBodyDeclarations] }''),
     (''EnumConstantList'',
        ''EnumConstantList:'' @ [CHR 0x0A] @
        ''    EnumConstant {, EnumConstant}''),
     (''EnumConstant'',
        ''EnumConstant:'' @ [CHR 0x0A] @
        ''    {EnumConstantModifier} Identifier [( [ArgumentList] )] [ClassBody]''),
     (''EnumConstantModifier'',
        ''EnumConstantModifier:'' @ [CHR 0x0A] @
        ''    Annotation''),
     (''EnumBodyDeclarations'',
        ''EnumBodyDeclarations:'' @ [CHR 0x0A] @
        ''    ; {ClassBodyDeclaration}''),
     (''RecordDeclaration'',
        ''RecordDeclaration:'' @ [CHR 0x0A] @
        ''    {ClassModifier} record TypeIdentifier [TypeParameters] RecordHeader [ClassImplements] RecordBody''),
     (''RecordHeader'',
        ''RecordHeader:'' @ [CHR 0x0A] @
        ''    ( [RecordComponentList] )''),
     (''RecordComponentList'',
        ''RecordComponentList:'' @ [CHR 0x0A] @
        ''    RecordComponent {, RecordComponent}''),
     (''RecordComponent'',
        ''RecordComponent:'' @ [CHR 0x0A] @
        ''    {RecordComponentModifier} UnannType Identifier'' @ [CHR 0x0A] @
        ''    VariableArityRecordComponent''),
     (''VariableArityRecordComponent'',
        ''VariableArityRecordComponent:'' @ [CHR 0x0A] @
        ''    {RecordComponentModifier} UnannType {Annotation} ... Identifier''),
     (''RecordComponentModifier'',
        ''RecordComponentModifier:'' @ [CHR 0x0A] @
        ''    Annotation''),
     (''RecordBody'',
        ''RecordBody:'' @ [CHR 0x0A] @
        ''    { {RecordBodyDeclaration} }''),
     (''RecordBodyDeclaration'',
        ''RecordBodyDeclaration:'' @ [CHR 0x0A] @
        ''    ClassBodyDeclaration'' @ [CHR 0x0A] @
        ''    CompactConstructorDeclaration''),
     (''CompactConstructorDeclaration'',
        ''CompactConstructorDeclaration:'' @ [CHR 0x0A] @
        ''    {ConstructorModifier} SimpleTypeName ConstructorBody'')
    ]\<close>

text \<open>Section 9 Interfaces\<close>

definition ebnf_interfaces :: "(string \<times> string) list" where
  \<open>ebnf_interfaces =
    [
     (''InterfaceDeclaration'',
        ''InterfaceDeclaration:'' @ [CHR 0x0A] @
        ''    NormalInterfaceDeclaration'' @ [CHR 0x0A] @
        ''    AnnotationInterfaceDeclaration''),
     (''NormalInterfaceDeclaration'',
        ''NormalInterfaceDeclaration:'' @ [CHR 0x0A] @
        ''    {InterfaceModifier} interface TypeIdentifier [TypeParameters] [InterfaceExtends] [InterfacePermits] InterfaceBody''),
     (''InterfaceModifier'',
        ''InterfaceModifier:'' @ [CHR 0x0A] @
        ''    (one of) Annotation public protected private'' @ [CHR 0x0A] @
        ''    abstract static sealed non-sealed strictfp''),
     (''InterfaceExtends'',
        ''InterfaceExtends:'' @ [CHR 0x0A] @
        ''    extends InterfaceTypeList''),
     (''InterfacePermits'',
        ''InterfacePermits:'' @ [CHR 0x0A] @
        ''    permits TypeName {, TypeName}''),
     (''InterfaceBody'',
        ''InterfaceBody:'' @ [CHR 0x0A] @
        ''    { {InterfaceMemberDeclaration} }''),
     (''InterfaceMemberDeclaration'',
        ''InterfaceMemberDeclaration:'' @ [CHR 0x0A] @
        ''    ConstantDeclaration'' @ [CHR 0x0A] @
        ''    InterfaceMethodDeclaration'' @ [CHR 0x0A] @
        ''    ClassDeclaration'' @ [CHR 0x0A] @
        ''    InterfaceDeclaration'' @ [CHR 0x0A] @
        ''    ;''),
     (''ConstantDeclaration'',
        ''ConstantDeclaration:'' @ [CHR 0x0A] @
        ''    {ConstantModifier} UnannType VariableDeclaratorList ;''),
     (''ConstantModifier'',
        ''ConstantModifier:'' @ [CHR 0x0A] @
        ''    (one of) Annotation public'' @ [CHR 0x0A] @
        ''    static final''),
     (''InterfaceMethodDeclaration'',
        ''InterfaceMethodDeclaration:'' @ [CHR 0x0A] @
        ''    {InterfaceMethodModifier} MethodHeader MethodBody''),
     (''InterfaceMethodModifier'',
        ''InterfaceMethodModifier:'' @ [CHR 0x0A] @
        ''    (one of) Annotation public private'' @ [CHR 0x0A] @
        ''    abstract default static strictfp''),
     (''AnnotationInterfaceDeclaration'',
        ''AnnotationInterfaceDeclaration:'' @ [CHR 0x0A] @
        ''    {InterfaceModifier} @ interface TypeIdentifier AnnotationInterfaceBody''),
     (''AnnotationInterfaceBody'',
        ''AnnotationInterfaceBody:'' @ [CHR 0x0A] @
        ''    { {AnnotationInterfaceMemberDeclaration} }''),
     (''AnnotationInterfaceMemberDeclaration'',
        ''AnnotationInterfaceMemberDeclaration:'' @ [CHR 0x0A] @
        ''    AnnotationInterfaceElementDeclaration'' @ [CHR 0x0A] @
        ''    ConstantDeclaration'' @ [CHR 0x0A] @
        ''    ClassDeclaration'' @ [CHR 0x0A] @
        ''    InterfaceDeclaration'' @ [CHR 0x0A] @
        ''    ;''),
     (''AnnotationInterfaceElementDeclaration'',
        ''AnnotationInterfaceElementDeclaration:'' @ [CHR 0x0A] @
        ''    {AnnotationInterfaceElementModifier} UnannType Identifier ( ) [Dims] [DefaultValue] ;''),
     (''AnnotationInterfaceElementModifier'',
        ''AnnotationInterfaceElementModifier:'' @ [CHR 0x0A] @
        ''    (one of) Annotation public'' @ [CHR 0x0A] @
        ''    abstract''),
     (''DefaultValue'',
        ''DefaultValue:'' @ [CHR 0x0A] @
        ''    default ElementValue''),
     (''Annotation'',
        ''Annotation:'' @ [CHR 0x0A] @
        ''    NormalAnnotation'' @ [CHR 0x0A] @
        ''    MarkerAnnotation'' @ [CHR 0x0A] @
        ''    SingleElementAnnotation''),
     (''NormalAnnotation'',
        ''NormalAnnotation:'' @ [CHR 0x0A] @
        ''    @ TypeName ( [ElementValuePairList] )''),
     (''ElementValuePairList'',
        ''ElementValuePairList:'' @ [CHR 0x0A] @
        ''    ElementValuePair {, ElementValuePair}''),
     (''ElementValuePair'',
        ''ElementValuePair:'' @ [CHR 0x0A] @
        ''    Identifier = ElementValue''),
     (''ElementValue'',
        ''ElementValue:'' @ [CHR 0x0A] @
        ''    ConditionalExpression'' @ [CHR 0x0A] @
        ''    ElementValueArrayInitializer'' @ [CHR 0x0A] @
        ''    Annotation''),
     (''ElementValueArrayInitializer'',
        ''ElementValueArrayInitializer:'' @ [CHR 0x0A] @
        ''    { [ElementValueList] [,] }''),
     (''ElementValueList'',
        ''ElementValueList:'' @ [CHR 0x0A] @
        ''    ElementValue {, ElementValue}''),
     (''MarkerAnnotation'',
        ''MarkerAnnotation:'' @ [CHR 0x0A] @
        ''    @ TypeName''),
     (''SingleElementAnnotation'',
        ''SingleElementAnnotation:'' @ [CHR 0x0A] @
        ''    @ TypeName ( ElementValue )'')
    ]\<close>

text \<open>Section 10 Arrays\<close>

definition ebnf_arrays :: "(string \<times> string) list" where
  \<open>ebnf_arrays =
    [
     (''ArrayInitializer'',
        ''ArrayInitializer:'' @ [CHR 0x0A] @
        ''    { [VariableInitializerList] [,] }''),
     (''VariableInitializerList'',
        ''VariableInitializerList:'' @ [CHR 0x0A] @
        ''    VariableInitializer {, VariableInitializer}'')
    ]\<close>

text \<open>Section 14 Blocks, Statements, and Patterns\<close>

definition ebnf_statements :: "(string \<times> string) list" where
  \<open>ebnf_statements =
    [
     (''Block'',
        ''Block:'' @ [CHR 0x0A] @
        ''    { [BlockStatements] }''),
     (''BlockStatements'',
        ''BlockStatements:'' @ [CHR 0x0A] @
        ''    BlockStatement {BlockStatement}''),
     (''BlockStatement'',
        ''BlockStatement:'' @ [CHR 0x0A] @
        ''    LocalClassOrInterfaceDeclaration'' @ [CHR 0x0A] @
        ''    LocalVariableDeclarationStatement'' @ [CHR 0x0A] @
        ''    Statement''),
     (''LocalClassOrInterfaceDeclaration'',
        ''LocalClassOrInterfaceDeclaration:'' @ [CHR 0x0A] @
        ''    ClassDeclaration'' @ [CHR 0x0A] @
        ''    NormalInterfaceDeclaration''),
     (''LocalVariableDeclarationStatement'',
        ''LocalVariableDeclarationStatement:'' @ [CHR 0x0A] @
        ''    LocalVariableDeclaration ;''),
     (''LocalVariableDeclaration'',
        ''LocalVariableDeclaration:'' @ [CHR 0x0A] @
        ''    {VariableModifier} LocalVariableType VariableDeclaratorList''),
     (''LocalVariableType'',
        ''LocalVariableType:'' @ [CHR 0x0A] @
        ''    UnannType'' @ [CHR 0x0A] @
        ''    var''),
     (''Statement'',
        ''Statement:'' @ [CHR 0x0A] @
        ''    StatementWithoutTrailingSubstatement'' @ [CHR 0x0A] @
        ''    LabeledStatement'' @ [CHR 0x0A] @
        ''    IfThenStatement'' @ [CHR 0x0A] @
        ''    IfThenElseStatement'' @ [CHR 0x0A] @
        ''    WhileStatement'' @ [CHR 0x0A] @
        ''    ForStatement''),
     (''StatementNoShortIf'',
        ''StatementNoShortIf:'' @ [CHR 0x0A] @
        ''    StatementWithoutTrailingSubstatement'' @ [CHR 0x0A] @
        ''    LabeledStatementNoShortIf'' @ [CHR 0x0A] @
        ''    IfThenElseStatementNoShortIf'' @ [CHR 0x0A] @
        ''    WhileStatementNoShortIf'' @ [CHR 0x0A] @
        ''    ForStatementNoShortIf''),
     (''StatementWithoutTrailingSubstatement'',
        ''StatementWithoutTrailingSubstatement:'' @ [CHR 0x0A] @
        ''    Block'' @ [CHR 0x0A] @
        ''    EmptyStatement'' @ [CHR 0x0A] @
        ''    ExpressionStatement'' @ [CHR 0x0A] @
        ''    AssertStatement'' @ [CHR 0x0A] @
        ''    SwitchStatement'' @ [CHR 0x0A] @
        ''    DoStatement'' @ [CHR 0x0A] @
        ''    BreakStatement'' @ [CHR 0x0A] @
        ''    ContinueStatement'' @ [CHR 0x0A] @
        ''    ReturnStatement'' @ [CHR 0x0A] @
        ''    SynchronizedStatement'' @ [CHR 0x0A] @
        ''    ThrowStatement'' @ [CHR 0x0A] @
        ''    TryStatement'' @ [CHR 0x0A] @
        ''    YieldStatement''),
     (''EmptyStatement'',
        ''EmptyStatement:'' @ [CHR 0x0A] @
        ''    ;''),
     (''LabeledStatement'',
        ''LabeledStatement:'' @ [CHR 0x0A] @
        ''    Identifier : Statement''),
     (''LabeledStatementNoShortIf'',
        ''LabeledStatementNoShortIf:'' @ [CHR 0x0A] @
        ''    Identifier : StatementNoShortIf''),
     (''ExpressionStatement'',
        ''ExpressionStatement:'' @ [CHR 0x0A] @
        ''    StatementExpression ;''),
     (''StatementExpression'',
        ''StatementExpression:'' @ [CHR 0x0A] @
        ''    Assignment'' @ [CHR 0x0A] @
        ''    PreIncrementExpression'' @ [CHR 0x0A] @
        ''    PreDecrementExpression'' @ [CHR 0x0A] @
        ''    PostIncrementExpression'' @ [CHR 0x0A] @
        ''    PostDecrementExpression'' @ [CHR 0x0A] @
        ''    MethodInvocation'' @ [CHR 0x0A] @
        ''    ClassInstanceCreationExpression''),
     (''IfThenStatement'',
        ''IfThenStatement:'' @ [CHR 0x0A] @
        ''    if ( Expression ) Statement''),
     (''IfThenElseStatement'',
        ''IfThenElseStatement:'' @ [CHR 0x0A] @
        ''    if ( Expression ) StatementNoShortIf else Statement''),
     (''IfThenElseStatementNoShortIf'',
        ''IfThenElseStatementNoShortIf:'' @ [CHR 0x0A] @
        ''    if ( Expression ) StatementNoShortIf else StatementNoShortIf''),
     (''AssertStatement'',
        ''AssertStatement:'' @ [CHR 0x0A] @
        ''    assert Expression ;'' @ [CHR 0x0A] @
        ''    assert Expression : Expression ;''),
     (''SwitchStatement'',
        ''SwitchStatement:'' @ [CHR 0x0A] @
        ''    switch ( Expression ) SwitchBlock''),
     (''SwitchBlock'',
        ''SwitchBlock:'' @ [CHR 0x0A] @
        ''    { SwitchRule {SwitchRule} }'' @ [CHR 0x0A] @
        ''    { {SwitchBlockStatementGroup} {SwitchLabel :} }''),
     (''SwitchRule'',
        ''SwitchRule:'' @ [CHR 0x0A] @
        ''    SwitchLabel -> Expression ;'' @ [CHR 0x0A] @
        ''    SwitchLabel -> Block'' @ [CHR 0x0A] @
        ''    SwitchLabel -> ThrowStatement''),
     (''SwitchBlockStatementGroup'',
        ''SwitchBlockStatementGroup:'' @ [CHR 0x0A] @
        ''    SwitchLabel : {SwitchLabel :} BlockStatements''),
     (''SwitchLabel'',
        ''SwitchLabel:'' @ [CHR 0x0A] @
        ''    case CaseConstant {, CaseConstant}'' @ [CHR 0x0A] @
        ''    case null [, default]'' @ [CHR 0x0A] @
        ''    case CasePattern {, CasePattern} [Guard]'' @ [CHR 0x0A] @
        ''    default''),
     (''CaseConstant'',
        ''CaseConstant:'' @ [CHR 0x0A] @
        ''    ConditionalExpression''),
     (''CasePattern'',
        ''CasePattern:'' @ [CHR 0x0A] @
        ''    Pattern''),
     (''Guard'',
        ''Guard:'' @ [CHR 0x0A] @
        ''    when Expression''),
     (''WhileStatement'',
        ''WhileStatement:'' @ [CHR 0x0A] @
        ''    while ( Expression ) Statement''),
     (''WhileStatementNoShortIf'',
        ''WhileStatementNoShortIf:'' @ [CHR 0x0A] @
        ''    while ( Expression ) StatementNoShortIf''),
     (''DoStatement'',
        ''DoStatement:'' @ [CHR 0x0A] @
        ''    do Statement while ( Expression ) ;''),
     (''ForStatement'',
        ''ForStatement:'' @ [CHR 0x0A] @
        ''    BasicForStatement'' @ [CHR 0x0A] @
        ''    EnhancedForStatement''),
     (''ForStatementNoShortIf'',
        ''ForStatementNoShortIf:'' @ [CHR 0x0A] @
        ''    BasicForStatementNoShortIf'' @ [CHR 0x0A] @
        ''    EnhancedForStatementNoShortIf''),
     (''BasicForStatement'',
        ''BasicForStatement:'' @ [CHR 0x0A] @
        ''    for ( [ForInit] ; [Expression] ; [ForUpdate] ) Statement''),
     (''BasicForStatementNoShortIf'',
        ''BasicForStatementNoShortIf:'' @ [CHR 0x0A] @
        ''    for ( [ForInit] ; [Expression] ; [ForUpdate] ) StatementNoShortIf''),
     (''ForInit'',
        ''ForInit:'' @ [CHR 0x0A] @
        ''    StatementExpressionList'' @ [CHR 0x0A] @
        ''    LocalVariableDeclaration''),
     (''ForUpdate'',
        ''ForUpdate:'' @ [CHR 0x0A] @
        ''    StatementExpressionList''),
     (''StatementExpressionList'',
        ''StatementExpressionList:'' @ [CHR 0x0A] @
        ''    StatementExpression {, StatementExpression}''),
     (''EnhancedForStatement'',
        ''EnhancedForStatement:'' @ [CHR 0x0A] @
        ''    for ( LocalVariableDeclaration : Expression ) Statement''),
     (''EnhancedForStatementNoShortIf'',
        ''EnhancedForStatementNoShortIf:'' @ [CHR 0x0A] @
        ''    for ( LocalVariableDeclaration : Expression ) StatementNoShortIf''),
     (''BreakStatement'',
        ''BreakStatement:'' @ [CHR 0x0A] @
        ''    break [Identifier] ;''),
     (''YieldStatement'',
        ''YieldStatement:'' @ [CHR 0x0A] @
        ''    yield Expression ;''),
     (''ContinueStatement'',
        ''ContinueStatement:'' @ [CHR 0x0A] @
        ''    continue [Identifier] ;''),
     (''ReturnStatement'',
        ''ReturnStatement:'' @ [CHR 0x0A] @
        ''    return [Expression] ;''),
     (''ThrowStatement'',
        ''ThrowStatement:'' @ [CHR 0x0A] @
        ''    throw Expression ;''),
     (''SynchronizedStatement'',
        ''SynchronizedStatement:'' @ [CHR 0x0A] @
        ''    synchronized ( Expression ) Block''),
     (''TryStatement'',
        ''TryStatement:'' @ [CHR 0x0A] @
        ''    try Block Catches'' @ [CHR 0x0A] @
        ''    try Block [Catches] Finally'' @ [CHR 0x0A] @
        ''    TryWithResourcesStatement''),
     (''Catches'',
        ''Catches:'' @ [CHR 0x0A] @
        ''    CatchClause {CatchClause}''),
     (''CatchClause'',
        ''CatchClause:'' @ [CHR 0x0A] @
        ''    catch ( CatchFormalParameter ) Block''),
     (''CatchFormalParameter'',
        ''CatchFormalParameter:'' @ [CHR 0x0A] @
        ''    {VariableModifier} CatchType VariableDeclaratorId''),
     (''CatchType'',
        ''CatchType:'' @ [CHR 0x0A] @
        ''    UnannClassType {| ClassType}''),
     (''Finally'',
        ''Finally:'' @ [CHR 0x0A] @
        ''    finally Block''),
     (''TryWithResourcesStatement'',
        ''TryWithResourcesStatement:'' @ [CHR 0x0A] @
        ''    try ResourceSpecification Block [Catches] [Finally]''),
     (''ResourceSpecification'',
        ''ResourceSpecification:'' @ [CHR 0x0A] @
        ''    ( ResourceList [;] )''),
     (''ResourceList'',
        ''ResourceList:'' @ [CHR 0x0A] @
        ''    Resource {; Resource}''),
     (''Resource'',
        ''Resource:'' @ [CHR 0x0A] @
        ''    LocalVariableDeclaration'' @ [CHR 0x0A] @
        ''    VariableAccess''),
     (''VariableAccess'',
        ''VariableAccess:'' @ [CHR 0x0A] @
        ''    ExpressionName'' @ [CHR 0x0A] @
        ''    FieldAccess''),
     (''Pattern'',
        ''Pattern:'' @ [CHR 0x0A] @
        ''    TypePattern'' @ [CHR 0x0A] @
        ''    RecordPattern''),
     (''TypePattern'',
        ''TypePattern:'' @ [CHR 0x0A] @
        ''    LocalVariableDeclaration''),
     (''RecordPattern'',
        ''RecordPattern:'' @ [CHR 0x0A] @
        ''    ReferenceType ( [ComponentPatternList] )''),
     (''ComponentPatternList'',
        ''ComponentPatternList:'' @ [CHR 0x0A] @
        ''    ComponentPattern {, ComponentPattern}''),
     (''ComponentPattern'',
        ''ComponentPattern:'' @ [CHR 0x0A] @
        ''    Pattern'' @ [CHR 0x0A] @
        ''    MatchAllPattern''),
     (''MatchAllPattern'',
        ''MatchAllPattern:'' @ [CHR 0x0A] @
        ''    _'')
    ]\<close>

text \<open>Section 15 Expressions\<close>

definition ebnf_expressions :: "(string \<times> string) list" where
  \<open>ebnf_expressions =
    [
     (''Primary'',
        ''Primary:'' @ [CHR 0x0A] @
        ''    PrimaryNoNewArray'' @ [CHR 0x0A] @
        ''    ArrayCreationExpression''),
     (''PrimaryNoNewArray'',
        ''PrimaryNoNewArray:'' @ [CHR 0x0A] @
        ''    Literal'' @ [CHR 0x0A] @
        ''    ClassLiteral'' @ [CHR 0x0A] @
        ''    this'' @ [CHR 0x0A] @
        ''    TypeName . this'' @ [CHR 0x0A] @
        ''    ( Expression )'' @ [CHR 0x0A] @
        ''    ClassInstanceCreationExpression'' @ [CHR 0x0A] @
        ''    FieldAccess'' @ [CHR 0x0A] @
        ''    ArrayAccess'' @ [CHR 0x0A] @
        ''    MethodInvocation'' @ [CHR 0x0A] @
        ''    MethodReference''),
     (''ClassLiteral'',
        ''ClassLiteral:'' @ [CHR 0x0A] @
        ''    TypeName {[ ]} . class'' @ [CHR 0x0A] @
        ''    NumericType {[ ]} . class'' @ [CHR 0x0A] @
        ''    boolean {[ ]} . class'' @ [CHR 0x0A] @
        ''    void . class''),
     (''ClassInstanceCreationExpression'',
        ''ClassInstanceCreationExpression:'' @ [CHR 0x0A] @
        ''    UnqualifiedClassInstanceCreationExpression'' @ [CHR 0x0A] @
        ''    ExpressionName . UnqualifiedClassInstanceCreationExpression'' @ [CHR 0x0A] @
        ''    Primary . UnqualifiedClassInstanceCreationExpression''),
     (''UnqualifiedClassInstanceCreationExpression'',
        ''UnqualifiedClassInstanceCreationExpression:'' @ [CHR 0x0A] @
        ''    new [TypeArguments] ClassOrInterfaceTypeToInstantiate ( [ArgumentList] ) [ClassBody]''),
     (''ClassOrInterfaceTypeToInstantiate'',
        ''ClassOrInterfaceTypeToInstantiate:'' @ [CHR 0x0A] @
        ''    {Annotation} Identifier {. {Annotation} Identifier} [TypeArgumentsOrDiamond]''),
     (''TypeArgumentsOrDiamond'',
        ''TypeArgumentsOrDiamond:'' @ [CHR 0x0A] @
        ''    TypeArguments'' @ [CHR 0x0A] @
        ''    <>''),
     (''ArrayCreationExpression'',
        ''ArrayCreationExpression:'' @ [CHR 0x0A] @
        ''    ArrayCreationExpressionWithoutInitializer'' @ [CHR 0x0A] @
        ''    ArrayCreationExpressionWithInitializer''),
     (''ArrayCreationExpressionWithoutInitializer'',
        ''ArrayCreationExpressionWithoutInitializer:'' @ [CHR 0x0A] @
        ''    new PrimitiveType DimExprs [Dims]'' @ [CHR 0x0A] @
        ''    new ClassOrInterfaceType DimExprs [Dims]''),
     (''ArrayCreationExpressionWithInitializer'',
        ''ArrayCreationExpressionWithInitializer:'' @ [CHR 0x0A] @
        ''    new PrimitiveType Dims ArrayInitializer'' @ [CHR 0x0A] @
        ''    new ClassOrInterfaceType Dims ArrayInitializer''),
     (''DimExprs'',
        ''DimExprs:'' @ [CHR 0x0A] @
        ''    DimExpr {DimExpr}''),
     (''DimExpr'',
        ''DimExpr:'' @ [CHR 0x0A] @
        ''    {Annotation} [ Expression ]''),
     (''ArrayAccess'',
        ''ArrayAccess:'' @ [CHR 0x0A] @
        ''    ExpressionName [ Expression ]'' @ [CHR 0x0A] @
        ''    PrimaryNoNewArray [ Expression ]'' @ [CHR 0x0A] @
        ''    ArrayCreationExpressionWithInitializer [ Expression ]''),
     (''FieldAccess'',
        ''FieldAccess:'' @ [CHR 0x0A] @
        ''    Primary . Identifier'' @ [CHR 0x0A] @
        ''    super . Identifier'' @ [CHR 0x0A] @
        ''    TypeName . super . Identifier''),
     (''MethodInvocation'',
        ''MethodInvocation:'' @ [CHR 0x0A] @
        ''    MethodName ( [ArgumentList] )'' @ [CHR 0x0A] @
        ''    TypeName . [TypeArguments] Identifier ( [ArgumentList] )'' @ [CHR 0x0A] @
        ''    ExpressionName . [TypeArguments] Identifier ( [ArgumentList] )'' @ [CHR 0x0A] @
        ''    Primary . [TypeArguments] Identifier ( [ArgumentList] )'' @ [CHR 0x0A] @
        ''    super . [TypeArguments] Identifier ( [ArgumentList] )'' @ [CHR 0x0A] @
        ''    TypeName . super . [TypeArguments] Identifier ( [ArgumentList] )''),
     (''ArgumentList'',
        ''ArgumentList:'' @ [CHR 0x0A] @
        ''    Expression {, Expression}''),
     (''MethodReference'',
        ''MethodReference:'' @ [CHR 0x0A] @
        ''    ExpressionName :: [TypeArguments] Identifier'' @ [CHR 0x0A] @
        ''    Primary :: [TypeArguments] Identifier'' @ [CHR 0x0A] @
        ''    ReferenceType :: [TypeArguments] Identifier'' @ [CHR 0x0A] @
        ''    super :: [TypeArguments] Identifier'' @ [CHR 0x0A] @
        ''    TypeName . super :: [TypeArguments] Identifier'' @ [CHR 0x0A] @
        ''    ClassType :: [TypeArguments] new'' @ [CHR 0x0A] @
        ''    ArrayType :: new''),
     (''Expression'',
        ''Expression:'' @ [CHR 0x0A] @
        ''    LambdaExpression'' @ [CHR 0x0A] @
        ''    AssignmentExpression''),
     (''LambdaExpression'',
        ''LambdaExpression:'' @ [CHR 0x0A] @
        ''    LambdaParameters -> LambdaBody''),
     (''LambdaParameters'',
        ''LambdaParameters:'' @ [CHR 0x0A] @
        ''    ( [LambdaParameterList] )'' @ [CHR 0x0A] @
        ''    ConciseLambdaParameter''),
     (''LambdaParameterList'',
        ''LambdaParameterList:'' @ [CHR 0x0A] @
        ''    NormalLambdaParameter {, NormalLambdaParameter}'' @ [CHR 0x0A] @
        ''    ConciseLambdaParameter {, ConciseLambdaParameter}''),
     (''NormalLambdaParameter'',
        ''NormalLambdaParameter:'' @ [CHR 0x0A] @
        ''    {VariableModifier} LambdaParameterType VariableDeclaratorId'' @ [CHR 0x0A] @
        ''    VariableArityParameter''),
     (''LambdaParameterType'',
        ''LambdaParameterType:'' @ [CHR 0x0A] @
        ''    UnannType'' @ [CHR 0x0A] @
        ''    var''),
     (''ConciseLambdaParameter'',
        ''ConciseLambdaParameter:'' @ [CHR 0x0A] @
        ''    Identifier'' @ [CHR 0x0A] @
        ''    _''),
     (''LambdaBody'',
        ''LambdaBody:'' @ [CHR 0x0A] @
        ''    Expression'' @ [CHR 0x0A] @
        ''    Block''),
     (''AssignmentExpression'',
        ''AssignmentExpression:'' @ [CHR 0x0A] @
        ''    ConditionalExpression'' @ [CHR 0x0A] @
        ''    Assignment''),
     (''Assignment'',
        ''Assignment:'' @ [CHR 0x0A] @
        ''    LeftHandSide AssignmentOperator Expression''),
     (''LeftHandSide'',
        ''LeftHandSide:'' @ [CHR 0x0A] @
        ''    ExpressionName'' @ [CHR 0x0A] @
        ''    FieldAccess'' @ [CHR 0x0A] @
        ''    ArrayAccess''),
     (''AssignmentOperator'',
        ''AssignmentOperator:'' @ [CHR 0x0A] @
        ''    (one of) =  *=  /=  %=  +=  -=  <<=  >>=  >>>=  &=  ^=  |=''),
     (''ConditionalExpression'',
        ''ConditionalExpression:'' @ [CHR 0x0A] @
        ''    ConditionalOrExpression'' @ [CHR 0x0A] @
        ''    ConditionalOrExpression ? Expression : ConditionalExpression'' @ [CHR 0x0A] @
        ''    ConditionalOrExpression ? Expression : LambdaExpression''),
     (''ConditionalOrExpression'',
        ''ConditionalOrExpression:'' @ [CHR 0x0A] @
        ''    ConditionalAndExpression'' @ [CHR 0x0A] @
        ''    ConditionalOrExpression || ConditionalAndExpression''),
     (''ConditionalAndExpression'',
        ''ConditionalAndExpression:'' @ [CHR 0x0A] @
        ''    InclusiveOrExpression'' @ [CHR 0x0A] @
        ''    ConditionalAndExpression && InclusiveOrExpression''),
     (''InclusiveOrExpression'',
        ''InclusiveOrExpression:'' @ [CHR 0x0A] @
        ''    ExclusiveOrExpression'' @ [CHR 0x0A] @
        ''    InclusiveOrExpression | ExclusiveOrExpression''),
     (''ExclusiveOrExpression'',
        ''ExclusiveOrExpression:'' @ [CHR 0x0A] @
        ''    AndExpression'' @ [CHR 0x0A] @
        ''    ExclusiveOrExpression ^ AndExpression''),
     (''AndExpression'',
        ''AndExpression:'' @ [CHR 0x0A] @
        ''    EqualityExpression'' @ [CHR 0x0A] @
        ''    AndExpression & EqualityExpression''),
     (''EqualityExpression'',
        ''EqualityExpression:'' @ [CHR 0x0A] @
        ''    RelationalExpression'' @ [CHR 0x0A] @
        ''    EqualityExpression == RelationalExpression'' @ [CHR 0x0A] @
        ''    EqualityExpression != RelationalExpression''),
     (''RelationalExpression'',
        ''RelationalExpression:'' @ [CHR 0x0A] @
        ''    ShiftExpression'' @ [CHR 0x0A] @
        ''    RelationalExpression < ShiftExpression'' @ [CHR 0x0A] @
        ''    RelationalExpression > ShiftExpression'' @ [CHR 0x0A] @
        ''    RelationalExpression <= ShiftExpression'' @ [CHR 0x0A] @
        ''    RelationalExpression >= ShiftExpression'' @ [CHR 0x0A] @
        ''    InstanceofExpression''),
     (''InstanceofExpression'',
        ''InstanceofExpression:'' @ [CHR 0x0A] @
        ''    RelationalExpression instanceof ReferenceType'' @ [CHR 0x0A] @
        ''    RelationalExpression instanceof Pattern''),
     (''ShiftExpression'',
        ''ShiftExpression:'' @ [CHR 0x0A] @
        ''    AdditiveExpression'' @ [CHR 0x0A] @
        ''    ShiftExpression << AdditiveExpression'' @ [CHR 0x0A] @
        ''    ShiftExpression >> AdditiveExpression'' @ [CHR 0x0A] @
        ''    ShiftExpression >>> AdditiveExpression''),
     (''AdditiveExpression'',
        ''AdditiveExpression:'' @ [CHR 0x0A] @
        ''    MultiplicativeExpression'' @ [CHR 0x0A] @
        ''    AdditiveExpression + MultiplicativeExpression'' @ [CHR 0x0A] @
        ''    AdditiveExpression - MultiplicativeExpression''),
     (''MultiplicativeExpression'',
        ''MultiplicativeExpression:'' @ [CHR 0x0A] @
        ''    UnaryExpression'' @ [CHR 0x0A] @
        ''    MultiplicativeExpression * UnaryExpression'' @ [CHR 0x0A] @
        ''    MultiplicativeExpression / UnaryExpression'' @ [CHR 0x0A] @
        ''    MultiplicativeExpression % UnaryExpression''),
     (''UnaryExpression'',
        ''UnaryExpression:'' @ [CHR 0x0A] @
        ''    PreIncrementExpression'' @ [CHR 0x0A] @
        ''    PreDecrementExpression'' @ [CHR 0x0A] @
        ''    + UnaryExpression'' @ [CHR 0x0A] @
        ''    - UnaryExpression'' @ [CHR 0x0A] @
        ''    UnaryExpressionNotPlusMinus''),
     (''PreIncrementExpression'',
        ''PreIncrementExpression:'' @ [CHR 0x0A] @
        ''    ++ UnaryExpression''),
     (''PreDecrementExpression'',
        ''PreDecrementExpression:'' @ [CHR 0x0A] @
        ''    -- UnaryExpression''),
     (''UnaryExpressionNotPlusMinus'',
        ''UnaryExpressionNotPlusMinus:'' @ [CHR 0x0A] @
        ''    PostfixExpression'' @ [CHR 0x0A] @
        ''    ~ UnaryExpression'' @ [CHR 0x0A] @
        ''    ! UnaryExpression'' @ [CHR 0x0A] @
        ''    CastExpression'' @ [CHR 0x0A] @
        ''    SwitchExpression''),
     (''PostfixExpression'',
        ''PostfixExpression:'' @ [CHR 0x0A] @
        ''    Primary'' @ [CHR 0x0A] @
        ''    ExpressionName'' @ [CHR 0x0A] @
        ''    PostIncrementExpression'' @ [CHR 0x0A] @
        ''    PostDecrementExpression''),
     (''PostIncrementExpression'',
        ''PostIncrementExpression:'' @ [CHR 0x0A] @
        ''    PostfixExpression ++''),
     (''PostDecrementExpression'',
        ''PostDecrementExpression:'' @ [CHR 0x0A] @
        ''    PostfixExpression --''),
     (''CastExpression'',
        ''CastExpression:'' @ [CHR 0x0A] @
        ''    ( PrimitiveType ) UnaryExpression'' @ [CHR 0x0A] @
        ''    ( ReferenceType {AdditionalBound} ) UnaryExpressionNotPlusMinus'' @ [CHR 0x0A] @
        ''    ( ReferenceType {AdditionalBound} ) LambdaExpression''),
     (''SwitchExpression'',
        ''SwitchExpression:'' @ [CHR 0x0A] @
        ''    switch ( Expression ) SwitchBlock'')
    ]\<close>

definition EBNF_DEFINITIONS_properties :: "(string \<times> string) list" where
  "EBNF_DEFINITIONS_properties =
     ebnf_lexical @ ebnf_types @ ebnf_names @ ebnf_packages @ ebnf_classes @ ebnf_interfaces @ ebnf_arrays @ ebnf_statements @ ebnf_expressions"

text \<open>
  An object keeps its string keys in the order of their first assignment, and a later
  property of the same name replaces the value: as \<^verbatim>\<open>Map.set\<close> does.
\<close>

definition EBNF_DEFINITIONS :: "(string, string) js_map" where
  "EBNF_DEFINITIONS = fold (\<lambda>(name, text). Map_set name text) EBNF_DEFINITIONS_properties []"



section \<open>One line of a file under the scanners\<close>



section \<open>Properties of the render adapter\<close>

lemma js_includes_suffix: "js_includes (a @ b) b"
  unfolding js_includes_def sublist_def by (intro exI [of _ a] exI [of _ "[]"]) simp

lemma class_call_error_TypeError: "without_new_TypeError (class_call_error name)"
  unfolding class_call_error_def
  using js_includes_suffix [of "''Class constructor '' @ name @ '' cannot be invoked ''" without_new]
  by simp

lemma class_call_error_signature: "new_signature (message_or_string (class_call_error name))"
  unfolding class_call_error_def new_signature_def
  using js_includes_suffix [of "''Class constructor '' @ name @ '' cannot be invoked ''" without_new]
  by simp

lemma isClass_exported: "isClass (exported shape name build) = (shape = ClassConstructors)"
  by (cases shape) (simp_all add: exported.simps isClass_def is_space_def)

lemma construct_exported: "construct (exported shape name build) = build"
  by (cases shape) (simp_all add: exported.simps)

lemma call_exported:
  "call (exported shape name build) args =
     (case shape of
        FactoryFunctions \<Rightarrow> build args
      | ClassConstructors \<Rightarrow> Inl (class_call_error name))"
  by (cases shape) (simp_all add: exported.simps)

text \<open>
  Against the library as described, either export shape, both wrappers hand the arguments to
  the constructor.
\<close>

lemma rr_run_exported:
  "fst (rr_run (exported shape name build) args) =
     (case shape of FactoryFunctions \<Rightarrow> [DirectCall] | ClassConstructors \<Rightarrow> [ConstructorCall])
   \<or> (shape = FactoryFunctions \<and>
        fst (rr_run (exported shape name build) args) = [DirectCall, ConstructorCall])"
  by (cases shape)
     (auto simp: rr_run_def isClass_exported construct_exported call_exported Let_def
           split: sum.splits)


lemma callOrNew_exported: "callOrNew (exported shape name build) args = build args"
  by (cases shape)
     (auto simp: callOrNew_def callOrNew_run_def class_call_error_TypeError construct_exported
                 call_exported split: sum.splits)

lemma railroad_fields:
  "RR_Diagram (railroad_diagrams shape markup) = exported shape ''Diagram'' build_Diagram"
  "RR_Sequence (railroad_diagrams shape markup) = exported shape ''Sequence'' build_Sequence"
  "RR_Choice (railroad_diagrams shape markup) = exported shape ''Choice'' build_Choice"
  "RR_Optional (railroad_diagrams shape markup) = exported shape ''Optional'' build_Optional"
  "RR_OneOrMore (railroad_diagrams shape markup) = exported shape ''OneOrMore'' build_OneOrMore"
  "RR_ZeroOrMore (railroad_diagrams shape markup) = exported shape ''ZeroOrMore'' build_ZeroOrMore"
  "RR_Terminal (railroad_diagrams shape markup) = exported shape ''Terminal'' build_Terminal"
  "RR_NonTerminal (railroad_diagrams shape markup) = exported shape ''NonTerminal'' build_NonTerminal"
  "RR_Stack (railroad_diagrams shape markup) = exported shape ''Stack'' build_Stack"
  "RR_Comment (railroad_diagrams shape markup) = exported shape ''Comment'' build_Comment"
  "toSVG_of (railroad_diagrams shape markup) = (\<lambda>n. Some (markup n))"
  "toString_of (railroad_diagrams shape markup) = (\<lambda>n. Some (Inr ''[object Object]''))"
  by (simp_all add: railroad_diagrams_def)

lemma invoke_callOrNew_exported:
  "invoke (callOrNew (exported shape name build)) items = invoke build items"
  by (simp add: invoke_def callOrNew_exported split: sum.splits)


lemma legacy_wrappers_model:
  "Diagram (railroad_diagrams shape markup) items = invoke build_Diagram items"
  "Sequence (railroad_diagrams shape markup) items = invoke build_Sequence items"
  "Choice (railroad_diagrams shape markup) items = invoke build_Choice items"
  "Optional (railroad_diagrams shape markup) items = invoke build_Optional items"
  "OneOrMore (railroad_diagrams shape markup) items = invoke build_OneOrMore items"
  "ZeroOrMore (railroad_diagrams shape markup) items = invoke build_ZeroOrMore items"
  "Terminal (railroad_diagrams shape markup) items = invoke build_Terminal items"
  "NonTerminal (railroad_diagrams shape markup) items = invoke build_NonTerminal items"
  "Stack (railroad_diagrams shape markup) items = invoke build_Stack items"
  "Comment (railroad_diagrams shape markup) items = invoke build_Comment items"
  by (simp_all add: Diagram_def Sequence_def Choice_def Optional_def OneOrMore_def
        ZeroOrMore_def Terminal_def NonTerminal_def Stack_def Comment_def railroad_fields
        invoke_callOrNew_exported)


text \<open>
  C7, as the code has it. \<open>callOrNew\<close> always calls directly first, and calls with
  \<^verbatim>\<open>new\<close> exactly when that call threw a \<open>TypeError\<close> whose message contains
  \<^verbatim>\<open>without 'new'\<close>; any other failure, and any result, is handed on unchanged. \<open>rr\<close>
  calls with \<^verbatim>\<open>new\<close> at once, with no direct call, when the source text of the function
  starts with \<^verbatim>\<open>class\<close> and a white space; otherwise it calls directly first and calls with
  \<^verbatim>\<open>new\<close> exactly when the thrown value's message contains one of its three signatures;
  any other failure, and any result, is handed on unchanged. In both files each of the ten
  node-kind helpers is the wrapper applied to the library's constructor of that kind.
\<close>

theorem wrappers_retry_with_new:
  "hd (fst (callOrNew_run Ctor args)) = DirectCall \<and>
   (ConstructorCall \<in> set (fst (callOrNew_run Ctor args))
      \<longleftrightarrow> (\<exists>e. call Ctor args = Inl e \<and> without_new_TypeError e)) \<and>
   callOrNew Ctor args =
     (if \<exists>e. call Ctor args = Inl e \<and> without_new_TypeError e
      then construct Ctor args else call Ctor args) \<and>
   (isClass fn \<longrightarrow> fst (rr_run fn args) = [ConstructorCall] \<and> rr fn args = construct fn args) \<and>
   (\<not> isClass fn \<longrightarrow>
      hd (fst (rr_run fn args)) = DirectCall \<and>
      (ConstructorCall \<in> set (fst (rr_run fn args))
         \<longleftrightarrow> (\<exists>e. call fn args = Inl e \<and> new_signature (message_or_string e))) \<and>
      rr fn args =
        (if \<exists>e. call fn args = Inl e \<and> new_signature (message_or_string e)
         then construct fn args else call fn args)) \<and>
   D lib = invoke (rr (RR_Diagram lib)) \<and> Seq lib = invoke (rr (RR_Sequence lib)) \<and>
   Ch lib = invoke (rr (RR_Choice lib)) \<and> Opt lib = invoke (rr (RR_Optional lib)) \<and>
   OOM lib = invoke (rr (RR_OneOrMore lib)) \<and> ZOM lib = invoke (rr (RR_ZeroOrMore lib)) \<and>
   Stk lib = invoke (rr (RR_Stack lib)) \<and>
   Cmt lib text = invoke (rr (RR_Comment lib)) [str text] \<and>
   T lib text = invoke (rr (RR_Terminal lib)) [str text] \<and>
   NT lib text = invoke (rr (RR_NonTerminal lib)) [str text] \<and>
   Diagram lib = invoke (callOrNew (RR_Diagram lib)) \<and>
   Sequence lib = invoke (callOrNew (RR_Sequence lib)) \<and>
   Choice lib = invoke (callOrNew (RR_Choice lib)) \<and>
   Optional lib = invoke (callOrNew (RR_Optional lib)) \<and>
   OneOrMore lib = invoke (callOrNew (RR_OneOrMore lib)) \<and>
   ZeroOrMore lib = invoke (callOrNew (RR_ZeroOrMore lib)) \<and>
   Terminal lib = invoke (callOrNew (RR_Terminal lib)) \<and>
   NonTerminal lib = invoke (callOrNew (RR_NonTerminal lib)) \<and>
   Stack lib = invoke (callOrNew (RR_Stack lib)) \<and>
   Comment lib = invoke (callOrNew (RR_Comment lib))"
proof -
  have legacy:
    "hd (fst (callOrNew_run Ctor args)) = DirectCall"
    "ConstructorCall \<in> set (fst (callOrNew_run Ctor args))
       \<longleftrightarrow> (\<exists>e. call Ctor args = Inl e \<and> without_new_TypeError e)"
    "callOrNew Ctor args =
       (if \<exists>e. call Ctor args = Inl e \<and> without_new_TypeError e
        then construct Ctor args else call Ctor args)"
    by (auto simp: callOrNew_def callOrNew_run_def split: sum.splits)
  have direct: "isClass fn \<longrightarrow> fst (rr_run fn args) = [ConstructorCall] \<and> rr fn args = construct fn args"
    by (simp add: rr_def rr_run_def)
  have guarded:
    "\<not> isClass fn \<longrightarrow>
      hd (fst (rr_run fn args)) = DirectCall \<and>
      (ConstructorCall \<in> set (fst (rr_run fn args))
         \<longleftrightarrow> (\<exists>e. call fn args = Inl e \<and> new_signature (message_or_string e))) \<and>
      rr fn args =
        (if \<exists>e. call fn args = Inl e \<and> new_signature (message_or_string e)
         then construct fn args else call fn args)"
    by (auto simp: rr_def rr_run_def Let_def split: sum.splits)
  have helpers:
    "D lib = invoke (rr (RR_Diagram lib))" "Seq lib = invoke (rr (RR_Sequence lib))"
    "Ch lib = invoke (rr (RR_Choice lib))" "Opt lib = invoke (rr (RR_Optional lib))"
    "OOM lib = invoke (rr (RR_OneOrMore lib))" "ZOM lib = invoke (rr (RR_ZeroOrMore lib))"
    "Stk lib = invoke (rr (RR_Stack lib))"
    "Cmt lib text = invoke (rr (RR_Comment lib)) [str text]"
    "T lib text = invoke (rr (RR_Terminal lib)) [str text]"
    "NT lib text = invoke (rr (RR_NonTerminal lib)) [str text]"
    by (simp_all add: fun_eq_iff D_def Seq_def Ch_def Opt_def OOM_def ZOM_def Stk_def Cmt_def
          T_def NT_def)
  have wrapped:
    "Diagram lib = invoke (callOrNew (RR_Diagram lib))"
    "Sequence lib = invoke (callOrNew (RR_Sequence lib))"
    "Choice lib = invoke (callOrNew (RR_Choice lib))"
    "Optional lib = invoke (callOrNew (RR_Optional lib))"
    "OneOrMore lib = invoke (callOrNew (RR_OneOrMore lib))"
    "ZeroOrMore lib = invoke (callOrNew (RR_ZeroOrMore lib))"
    "Terminal lib = invoke (callOrNew (RR_Terminal lib))"
    "NonTerminal lib = invoke (callOrNew (RR_NonTerminal lib))"
    "Stack lib = invoke (callOrNew (RR_Stack lib))"
    "Comment lib = invoke (callOrNew (RR_Comment lib))"
    by (simp_all add: fun_eq_iff Diagram_def Sequence_def Choice_def Optional_def OneOrMore_def
          ZeroOrMore_def Terminal_def NonTerminal_def Stack_def Comment_def)
  from legacy direct guarded helpers wrapped show ?thesis
    by (intro conjI)
qed

text \<open>
  The theorem at a class export and at a function export of \<open>Terminal\<close>: the class is built
  with \<^verbatim>\<open>new\<close> by \<open>rr\<close> without a direct call, by \<open>callOrNew\<close> after the direct call
  failed; the function is called directly.
\<close>

theorem wrappers_retry_with_new_witness:
  "isClass (exported ClassConstructors ''Terminal'' build_Terminal) \<and>
   fst (rr_run (exported ClassConstructors ''Terminal'' build_Terminal) [Str ''x'']) = [ConstructorCall] \<and>
   rr (exported ClassConstructors ''Terminal'' build_Terminal) [Str ''x''] = Inr (Obj (TerminalNode ''x'')) \<and>
   callOrNew (exported ClassConstructors ''Terminal'' build_Terminal) [Str ''x''] = Inr (Obj (TerminalNode ''x'')) \<and>
   ConstructorCall \<in> set (fst (callOrNew_run (exported ClassConstructors ''Terminal'' build_Terminal) [Str ''x'']))"
proof -
  let ?cls = "exported ClassConstructors ''Terminal'' build_Terminal"
  let ?lib = "railroad_diagrams ClassConstructors (\<lambda>n. Inr (SvgString ''<svg/>''))"
  note t = wrappers_retry_with_new [of ?cls "[Str ''x'']" ?cls ?lib "''x''"]
  have c: "isClass ?cls" by (simp add: isClass_exported)
  have e: "call ?cls [Str ''x''] = Inl (class_call_error ''Terminal'')"
    by (simp add: call_exported)
  have r: "\<exists>e. call ?cls [Str ''x''] = Inl e \<and> without_new_TypeError e"
    using e class_call_error_TypeError by auto
  have b: "construct ?cls [Str ''x''] = Inr (Obj (TerminalNode ''x''))"
    by (simp add: construct_exported)
  from t c r b show ?thesis by simp
qed

text \<open>
  C7 as it is stated fails at a class export of the library: \<open>rr\<close> constructs it with
  \<^verbatim>\<open>new\<close> and never attempts the direct call.
\<close>

theorem rr_skips_direct_call_counterexample:
  "fst (rr_run (exported ClassConstructors ''Diagram'' build_Diagram) [Obj (TerminalNode ''x'')])
     = [ConstructorCall] \<and>
   DirectCall \<notin> set (fst (rr_run (exported ClassConstructors ''Diagram'' build_Diagram)
                                [Obj (TerminalNode ''x'')]))"
  by (simp add: rr_run_def isClass_exported)

section \<open>Properties of the serializer\<close>





lemma diagramToSvgString_rethrows:
  "diagramToSvgString (Truthy (Some (Inl (Unprintable raised))) toString) = Inl raised"
  "diagramToSvgString (Truthy (Some (Inr (SvgElement None (Inl (Unprintable raised))))) toString) =
     Inl raised"
  "diagramToSvgString (Truthy None (Some (Inl (Unprintable raised)))) = Inl raised"
  by (simp_all add: diagramToSvgString_def try_block_def)

text \<open>
  C4 fails at \<^verbatim>\<open>diagramToSvgString({ toSVG() { throw Object.create(null); } })\<close>. The thrown
  object has no \<^verbatim>\<open>message\<close> and no conversion to a string, so \<^verbatim>\<open>String(e)\<close> in the
  \<^verbatim>\<open>catch\<close> block throws a \<open>TypeError\<close>, and the function, which has no handler around
  its \<^verbatim>\<open>catch\<close> block, throws it in turn instead of returning the render-error comment.
\<close>

theorem diagramToSvgString_catch_block_throws:
  "diagramToSvgString
     (Truthy (Some (Inl (Unprintable (ErrorObject TypeError ''Cannot convert object to primitive value''))))
             (Some (Inr ''[object Object]''))) =
   Inl (ErrorObject TypeError ''Cannot convert object to primitive value'')"
  by (simp add: diagramToSvgString_def try_block_def)

section \<open>Properties of the precedence-chain helper\<close>

lemma evaluated_map_Inr: "evaluated (map (\<lambda>x. Inr (f x)) xs) = Inr (map f xs)"
  by (induction xs) simp_all

lemma objects_map_Obj: "objects (map Obj ns) = Some ns"
  by (induction ns) simp_all

lemma T_legacy_model:
  "T_legacy (railroad_diagrams shape markup) s = Inr (Obj (TerminalNode s))"
  by (simp add: T_legacy_def legacy_wrappers_model invoke_def)

lemma NT_legacy_model:
  "NT_legacy (railroad_diagrams shape markup) s = Inr (Obj (NonTerminalNode s))"
  by (simp add: NT_legacy_def legacy_wrappers_model invoke_def)

lemma Choice_of_terminals:
  "ops \<noteq> [] \<Longrightarrow>
   Choice (railroad_diagrams shape markup)
       (num 0 # map (T_legacy (railroad_diagrams shape markup)) ops)
     = Inr (Obj (ChoiceNode 0 (map TerminalNode ops)))"
proof -
  assume ne: "ops \<noteq> []"
  have m: "map (T_legacy (railroad_diagrams shape markup)) ops
             = map (\<lambda>s. Inr (Obj (TerminalNode s))) ops"
    by (simp add: T_legacy_model)
  have e: "evaluated (map (\<lambda>s. Inr (Obj (TerminalNode s))) ops)
             = Inr (map (\<lambda>s. Obj (TerminalNode s)) ops)"
    by (rule evaluated_map_Inr)
  have o: "objects (map (\<lambda>s. Obj (TerminalNode s)) ops) = Some (map TerminalNode ops)"
    using objects_map_Obj [of "map TerminalNode ops"] by (simp add: comp_def)
  show ?thesis
    using ne by (simp add: legacy_wrappers_model invoke_def m e o)
qed

text \<open>
  C5. For a base rule \<open>R\<close> and a non-empty list of operator tokens, against the library as
  described (either export shape), \<open>chain\<close> returns the tree
  \<open>Sequence(NonTerminal(R), ZeroOrMore(Sequence(Choice(0, Terminal(op1), ..., Terminal(opn)),
  NonTerminal(R))))\<close>.
\<close>

theorem chain_builds_precedence_tree:
  "ops \<noteq> [] \<Longrightarrow>
   chain (railroad_diagrams shape markup) R ops =
     Inr (Obj (SequenceNode
       [NonTerminalNode R,
        ZeroOrMoreNode (SequenceNode [ChoiceNode 0 (map TerminalNode ops), NonTerminalNode R])]))"
  by (simp add: chain_def Choice_of_terminals NT_legacy_model)
     (simp add: legacy_wrappers_model invoke_def build_Sequence_def)

text \<open>The rule \<^verbatim>\<open>MultiplicativeExpression\<close> of javaGrammar.ts, with classes exported.\<close>

theorem chain_builds_precedence_tree_witness:
  "[''*'', ''/'', ''%''] \<noteq> [] \<and>
   chain (railroad_diagrams ClassConstructors (\<lambda>n. Inr (SvgString ''<svg/>'')))
     ''UnaryExpression'' [''*'', ''/'', ''%''] =
     Inr (Obj (SequenceNode
       [NonTerminalNode ''UnaryExpression'',
        ZeroOrMoreNode (SequenceNode
          [ChoiceNode 0 [TerminalNode ''*'', TerminalNode ''/'', TerminalNode ''%''],
           NonTerminalNode ''UnaryExpression''])]))"
  using chain_builds_precedence_tree
          [of "[''*'', ''/'', ''%'']" ClassConstructors "\<lambda>n. Inr (SvgString ''<svg/>'')"
              "''UnaryExpression''"]
  by simp

section \<open>Properties of the section filter\<close>

lemma js_includes_empty: "js_includes s []"
  by (simp add: js_includes_def)

text \<open>
  C6, as the code has it. The query is trimmed before it is compared: the filter returns, in
  the original order, exactly the names whose lowercase form contains the lowercase form of
  the trimmed query. A query that is empty after trimming keeps every name, and the empty
  query returns the list unchanged.
\<close>

theorem filterNames_by_trimmed_query:
  "filterNames query names =
     filter (\<lambda>n. js_includes (toLowerCase n) (toLowerCase (trim query))) names \<and>
   subseq (filterNames query names) names \<and>
   filterNames [] names = names"
proof -
  have eq: "filterNames query names =
              filter (\<lambda>n. js_includes (toLowerCase n) (toLowerCase (trim query))) names"
    by (simp add: filterNames_def Let_def js_includes_empty)
  have sub: "subseq (filterNames query names) names"
    unfolding eq by (rule subseq_filter_left)
  have empty: "filterNames [] names = names"
    by (simp add: filterNames_def trim_def toLowerCase_def)
  from eq sub empty show ?thesis by (intro conjI)
qed

text \<open>
  C6 as it is stated fails for a query of one blank: the filter keeps \<^verbatim>\<open>Type\<close>, whose
  lowercase form does not contain the blank.
\<close>

theorem filterNames_blank_query_counterexample:
  "filterNames '' '' [''Type''] = [''Type''] \<and>
   \<not> js_includes (toLowerCase ''Type'') (toLowerCase '' '')"
  by code_simp

section \<open>Properties of the coverage verifier\<close>

lemma sort_eq_Nil_iff: "sort xs = [] \<longleftrightarrow> xs = []"
  by (metis set_empty set_sort)

lemma no_mismatch_iff:
  "(missingEbnf diagramRules ebnfRules = [] \<and> missingDiagram diagramRules ebnfRules = [])
     \<longleftrightarrow> set diagramRules = set ebnfRules"
  by (auto simp: missingEbnf_def missingDiagram_def sort_eq_Nil_iff filter_empty_conv)

lemma report_exit_code:
  "snd (report diagramRules ebnfRules) =
     (if missingEbnf diagramRules ebnfRules = [] \<and> missingDiagram diagramRules ebnfRules = []
      then 0 else 1)"
  by (simp add: report_def Let_def)

lemma main_exit_code:
  "snd (main (Inr grammar) (Inr ebnf)) =
     (if set (extractDiagramRules grammar) = set (extractEbnfRules ebnf) then 0 else 1)"
  using no_mismatch_iff [of "extractDiagramRules grammar" "extractEbnfRules ebnf"]
  by (simp add: main_def Let_def split_def report_exit_code)

text \<open>
  C1. No mismatch is reported exactly when the two key sets are equal; each difference list
  holds the one-sided difference of the sets and is sorted; the exit code is 0 exactly when
  both lists are empty and 1 otherwise, for the lists and for the run of \<^verbatim>\<open>main\<close> on two
  readable files. With the diagram rules holding the key \<^verbatim>\<open>A\<close> and the EBNF entry removed,
  the lists are \<^verbatim>\<open>["A"]\<close> and \<^verbatim>\<open>[]\<close> and the exit code is 1; the last two conjuncts run
  \<^verbatim>\<open>main\<close> on such files, before and after the removal.
\<close>

theorem coverage_mismatch_and_exit_code:
  "((missingEbnf diagramRules ebnfRules = [] \<and> missingDiagram diagramRules ebnfRules = [])
      \<longleftrightarrow> set diagramRules = set ebnfRules) \<and>
   set (missingEbnf diagramRules ebnfRules) = set diagramRules - set ebnfRules \<and>
   set (missingDiagram diagramRules ebnfRules) = set ebnfRules - set diagramRules \<and>
   sorted (missingEbnf diagramRules ebnfRules) \<and>
   sorted (missingDiagram diagramRules ebnfRules) \<and>
   snd (report diagramRules ebnfRules) =
     (if missingEbnf diagramRules ebnfRules = [] \<and> missingDiagram diagramRules ebnfRules = []
      then 0 else 1) \<and>
   snd (main (Inr grammar) (Inr ebnf)) =
     (if set (extractDiagramRules grammar) = set (extractEbnfRules ebnf) then 0 else 1) \<and>
   missingEbnf [''A''] [] = [''A''] \<and> missingDiagram [''A''] [] = [] \<and>
   snd (report [''A''] []) = 1 \<and>
   main (Inr (''rules.set('' @ [dquote] @ ''A'' @ [dquote] @ '', () => D(T('' @ [dquote] @ ''x'' @
                [dquote] @ '')));''))
        (Inr (''export const EBNF_DEFINITIONS = {'' @ [CHR 0x0A] @ ''  '' @ [dquote] @ ''A'' @
                [dquote] @ '': `A: x`,'' @ [CHR 0x0A] @ ''};''))
     = ([Checking, FoundDiagramRules 1, FoundEbnfDefinitions 1, Blank, CheckPassed, AllRulesMatch],
        0) \<and>
   main (Inr (''rules.set('' @ [dquote] @ ''A'' @ [dquote] @ '', () => D(T('' @ [dquote] @ ''x'' @
                [dquote] @ '')));''))
        (Inr (''export const EBNF_DEFINITIONS = {'' @ [CHR 0x0A] @ ''};''))
     = ([Checking, FoundDiagramRules 1, FoundEbnfDefinitions 0, Blank, RulesWithDiagramNoEbnf,
         Item ''A'', Blank, CheckFailed, PleaseEnsure], 1)"
proof -
  have sets:
    "set (missingEbnf diagramRules ebnfRules) = set diagramRules - set ebnfRules"
    "set (missingDiagram diagramRules ebnfRules) = set ebnfRules - set diagramRules"
    by (auto simp: missingEbnf_def missingDiagram_def)
  have sorted:
    "sorted (missingEbnf diagramRules ebnfRules)" "sorted (missingDiagram diagramRules ebnfRules)"
    by (simp_all add: missingEbnf_def missingDiagram_def)
  have scenario:
    "missingEbnf [''A''] [] = [''A'']" "missingDiagram [''A''] [] = []"
    "snd (report [''A''] []) = 1"
    by (simp_all add: missingEbnf_def missingDiagram_def report_def Let_def)
  have g: "extractDiagramRules
             (''rules.set('' @ [dquote] @ ''A'' @ [dquote] @ '', () => D(T('' @ [dquote] @ ''x'' @
                [dquote] @ '')));'') = [''A'']"
    by (simp add: extractDiagramRules_def match_rules_set_def quoted_name_def is_quote_def
          is_space_def dquote_def apostrophe_def Set_add_def)
  have e1: "extractEbnfRules
              (''export const EBNF_DEFINITIONS = {'' @ [CHR 0x0A] @ ''  '' @ [dquote] @ ''A'' @
                [dquote] @ '': `A: x`,'' @ [CHR 0x0A] @ ''};'') = [''A'']"
    by (simp add: extractEbnfRules_def match_ebnf_key_def quoted_name_def is_quote_def
          is_space_def is_line_terminator_def dquote_def apostrophe_def Set_add_def)
  have e0: "extractEbnfRules (''export const EBNF_DEFINITIONS = {'' @ [CHR 0x0A] @ ''};'') = []"
    by (simp add: extractEbnfRules_def match_ebnf_key_def quoted_name_def is_quote_def
          is_space_def is_line_terminator_def dquote_def apostrophe_def Set_add_def)
  have run1:
    "main (Inr (''rules.set('' @ [dquote] @ ''A'' @ [dquote] @ '', () => D(T('' @ [dquote] @ ''x'' @
                [dquote] @ '')));''))
        (Inr (''export const EBNF_DEFINITIONS = {'' @ [CHR 0x0A] @ ''  '' @ [dquote] @ ''A'' @
                [dquote] @ '': `A: x`,'' @ [CHR 0x0A] @ ''};''))
     = ([Checking, FoundDiagramRules 1, FoundEbnfDefinitions 1, Blank, CheckPassed, AllRulesMatch],
        0)"
    unfolding main_def sum.case g e1
    by (simp add: report_def missingEbnf_def missingDiagram_def Let_def)
  have run2:
    "main (Inr (''rules.set('' @ [dquote] @ ''A'' @ [dquote] @ '', () => D(T('' @ [dquote] @ ''x'' @
                [dquote] @ '')));''))
        (Inr (''export const EBNF_DEFINITIONS = {'' @ [CHR 0x0A] @ ''};''))
     = ([Checking, FoundDiagramRules 1, FoundEbnfDefinitions 0, Blank, RulesWithDiagramNoEbnf,
         Item ''A'', Blank, CheckFailed, PleaseEnsure], 1)"
    unfolding main_def sum.case g e0
    by (simp add: report_def missingEbnf_def missingDiagram_def Let_def)
  from no_mismatch_iff [of diagramRules ebnfRules] sets sorted
    report_exit_code [of diagramRules ebnfRules] main_exit_code [of grammar ebnf]
    scenario run1 run2
  show ?thesis by (intro conjI)
qed

section \<open>Properties of the registry\<close>


lemma keys_fold_Map_set:
  "fst ` set (fold (\<lambda>(k, v). Map_set k v) es m) = fst ` set m \<union> fst ` set es"
proof (induction es arbitrary: m)
  case Nil
  then show ?case by simp
next
  case (Cons e es)
  obtain k' v' where e: "e = (k', v')" by (cases e)
  have "fst ` set (fold (\<lambda>(k, v). Map_set k v) (e # es) m)
          = fst ` set (Map_set k' v' m) \<union> fst ` set es"
    by (simp add: e Cons.IH)
  also have "fst ` set (Map_set k' v' m) = {k'} \<union> fst ` set m"
    by (simp add: Map_set_def dom_update)
  finally show ?case by (auto simp: e)
qed












lemma section_keys:
  "map fst (rules_lexical lib) = SECTION_RULES Lexical"
  "map fst (rules_types lib) = SECTION_RULES Types"
  "map fst (rules_names lib) = SECTION_RULES Names"
  "map fst (rules_packages lib) = SECTION_RULES Packages"
  "map fst (rules_classes lib) = SECTION_RULES Classes"
  "map fst (rules_interfaces lib) = SECTION_RULES Interfaces"
  "map fst (rules_arrays lib) = SECTION_RULES Arrays"
  "map fst (rules_statements lib) = SECTION_RULES Statements"
  "map fst (rules_expressions lib) = SECTION_RULES Expressions"
  by (simp_all add: rules_lexical_def rules_types_def rules_names_def rules_packages_def
        rules_classes_def rules_interfaces_def rules_arrays_def rules_statements_def
        rules_expressions_def)

lemma keys_of_set_calls:
  "map fst (rules_set_calls lib) = concat (map SECTION_RULES SECTION_ORDER)"
  by (simp add: rules_set_calls_def SECTION_ORDER_def section_keys del: SECTION_RULES.simps)

lemma registered_names:
  "set (getDiagramRuleNames lib) = set (concat (map SECTION_RULES SECTION_ORDER))"
proof -
  have "set (getDiagramRuleNames lib) = fst ` set (rules lib)"
    by (simp add: getDiagramRuleNames_def Map_keys_def)
  also have "\<dots> = fst ` set (rules_set_calls lib)"
    by (simp add: rules_def keys_fold_Map_set)
  also have "\<dots> = set (map fst (rules_set_calls lib))" by simp
  finally show ?thesis by (simp only: keys_of_set_calls)
qed

lemma Map_get_rules_None:
  "Map_get (rules lib) name = None \<longleftrightarrow> name \<notin> set (getDiagramRuleNames lib)"
  by (simp add: Map_get_def map_of_eq_None_iff getDiagramRuleNames_def Map_keys_def)


lemma every_section_in_order: "s \<in> set SECTION_ORDER"
  by (cases s) (simp_all add: SECTION_ORDER_def)

text \<open>
  C10. Every name of every section of \<open>SECTION_RULES\<close> is a key of the registry, and its
  lookup takes the branch that calls the registered factory, never the one that returns
  \<^verbatim>\<open>undefined\<close>.
\<close>

theorem section_rules_are_registered:
  "\<forall>name \<in> set (SECTION_RULES s).
     name \<in> set (getDiagramRuleNames lib) \<and>
     (\<exists>factory. Map_get (rules lib) name = Some factory \<and>
                createRuleDiagram lib name = factory ())"
proof
  fix name
  assume "name \<in> set (SECTION_RULES s)"
  with every_section_in_order [of s] have reg: "name \<in> set (getDiagramRuleNames lib)"
    unfolding registered_names by auto
  then obtain factory where f: "Map_get (rules lib) name = Some factory"
    using Map_get_rules_None [of lib name] by (cases "Map_get (rules lib) name") auto
  then have "createRuleDiagram lib name = factory ()"
    by (simp add: createRuleDiagram_def)
  with reg f show
    "name \<in> set (getDiagramRuleNames lib) \<and>
     (\<exists>factory. Map_get (rules lib) name = Some factory \<and>
                createRuleDiagram lib name = factory ())"
    by blast
qed

theorem section_rules_are_registered_witness:
  "''ArrayInitializer'' \<in> set (SECTION_RULES Arrays) \<and>
   ''ArrayInitializer''
     \<in> set (getDiagramRuleNames (railroad_diagrams ClassConstructors (\<lambda>n. Inr (SvgString ''<svg/>'')))) \<and>
   (\<exists>factory.
      Map_get (rules (railroad_diagrams ClassConstructors (\<lambda>n. Inr (SvgString ''<svg/>''))))
        ''ArrayInitializer'' = Some factory \<and>
      createRuleDiagram (railroad_diagrams ClassConstructors (\<lambda>n. Inr (SvgString ''<svg/>'')))
        ''ArrayInitializer'' = factory ())"
proof -
  have m: "''ArrayInitializer'' \<in> set (SECTION_RULES Arrays)" by simp
  from section_rules_are_registered
         [of Arrays "railroad_diagrams ClassConstructors (\<lambda>n. Inr (SvgString ''<svg/>''))"] m
  show ?thesis by blast
qed

section \<open>Properties of lookup followed by serialization\<close>








section \<open>Properties of the lookup of an unknown name\<close>








section \<open>Properties of the scanners of the coverage check\<close>





























subsection \<open>The scanners on the characters of the two files\<close>









subsection \<open>The lines of java25Grammar.ts\<close>






















subsection \<open>The lines of ebnfDefinitions.ts\<close>













subsection \<open>The keys of the EBNF store\<close>




end
